theory Spec2Isabelle
  imports Main "HOL-Library.Word"
begin

section \<open>The bootstrap and refresh state machine of src/bootstrap.c\<close>

text \<open>
  The file drives three collaborators whose code lives elsewhere: the configuration monitor
  (\<open>lcb_confmon_*\<close>), the timer (\<open>lcbio_timer_*\<close>) and the owning client instance
  (\<open>lcb_t\<close>). The functions of \<open>bootstrap.c\<close> are translated statement by statement; the
  collaborators are modelled from their description, each definition saying so. Logging
  (\<open>lcb_log\<close>) has no effect on the state and is left out.
\<close>

subsection \<open>Enumerations and scalar types\<close>

text \<open>\<open>LCB_ERRCODE n\<close> stands for any other code of the enumeration.\<close>

datatype lcb_error_t =
  LCB_SUCCESS | LCB_ERROR | LCB_ETIMEDOUT | LCB_CLIENT_ENOMEM | LCB_ERRCODE nat

text \<open>\<open>CLCONFIG_EVENT_OTHER\<close> stands for any tag other than the two the file names.\<close>

datatype clconfig_event_t =
  CLCONFIG_EVENT_GOT_NEW_CONFIG | CLCONFIG_EVENT_PROVIDERS_CYCLED | CLCONFIG_EVENT_OTHER

datatype clconfig_method_t = LCB_CLCONFIG_CCCP | LCB_CLCONFIG_HTTP | LCB_CLCONFIG_MCRAW

datatype lcb_type_t = LCB_TYPE_BUCKET | LCB_TYPE_CLUSTER

datatype lcbvb_dist_t = LCBVB_DIST_VBUCKET | LCBVB_DIST_KETAMA

text \<open>The two functions a listener's \<open>callback\<close> pointer can hold.\<close>

datatype listener_fn = FN_config_callback | FN_async_step_callback

text \<open>The two functions the timer's target pointer can hold.\<close>

datatype timer_fn = TGT_initial_timeout | TGT_async_refresh

text \<open>Dereferencing a null pointer is the one way a function of the file can go wrong.\<close>

datatype fault = NullDeref

type_synonym hrtime_t = "64 word"
type_synonym lcb_SIZE = "64 word"
type_synonym lcb_U32 = "32 word"

subsection \<open>Structures\<close>

text \<open>A configuration snapshot: the provider it came from and an opaque topology.\<close>

record clconfig_info =
  origin :: clconfig_method_t
  vbc :: nat

text \<open>
  Modelled from the spec: the Timer, a rearmable, cancelable, retargetable single-shot alarm
  with an immediate-signal operation (\<open>lcbio_timer_*\<close>, \<open>lcbio_async_signal\<close>; their code is
  not in \<open>bootstrap.c\<close>). \<open>usec\<close> is the delay it was last armed with.
\<close>

record lcbio_TIMER =
  armed :: bool
  target :: timer_fn
  usec :: lcb_U32

definition lcbio_timer_new :: "timer_fn \<Rightarrow> lcbio_TIMER" where
  "lcbio_timer_new f = \<lparr>armed = False, target = f, usec = 0\<rparr>"

definition lcbio_timer_disarm :: "lcbio_TIMER \<Rightarrow> lcbio_TIMER" where
  "lcbio_timer_disarm t = t\<lparr>armed := False\<rparr>"

definition lcbio_timer_rearm :: "lcbio_TIMER \<Rightarrow> lcb_U32 \<Rightarrow> lcbio_TIMER" where
  "lcbio_timer_rearm t us = t\<lparr>armed := True, usec := us\<rparr>"

definition lcbio_timer_armed :: "lcbio_TIMER \<Rightarrow> bool" where
  "lcbio_timer_armed t = armed t"

definition lcbio_timer_get_target :: "lcbio_TIMER \<Rightarrow> timer_fn" where
  "lcbio_timer_get_target t = target t"

definition lcbio_timer_set_target :: "lcbio_TIMER \<Rightarrow> timer_fn \<Rightarrow> lcbio_TIMER" where
  "lcbio_timer_set_target t f = t\<lparr>target := f\<rparr>"

definition lcbio_async_signal :: "lcbio_TIMER \<Rightarrow> lcbio_TIMER" where
  "lcbio_async_signal t = lcbio_timer_rearm t 0"

record clconfig_listener =
  callback :: "listener_fn option"

text \<open>
  \<open>struct lcb_bootstrap_st\<close>. The session is stored inside the instance that owns it, so
  the back pointer \<open>parent\<close> is the enclosing instance and needs no field. \<open>tm\<close> is the timer
  itself: \<open>lcbio_timer_new\<close> is taken to return a timer.
\<close>

record lcb_bootstrap_st =
  listener :: clconfig_listener
  tm :: lcbio_TIMER
  last_refresh :: hrtime_t
  bootstrapped :: bool
  errcounter :: "32 word"

text \<open>The calls \<open>bootstrap.c\<close> makes that change the configuration monitor.\<close>

datatype confmon_call =
  CM_prepare | CM_start | CM_add_listener | CM_remove_listener
  | CM_set_provider_active clconfig_method_t bool

text \<open>
  Modelled from the spec: the ConfigMonitor (\<open>lcb_confmon_*\<close>; its code is not in
  \<open>bootstrap.c\<close>). The first five fields are what its accessors report: the best known
  config, the last error, whether it is refreshing, whether a management connection is
  established, and the status its start returns. \<open>cm_calls\<close> records, in order, the calls
  that change it. The spec does not describe \<open>lcb_confmon_prepare\<close>; it returns nothing and
  takes the monitor alone, so it acts on the monitor and its call is recorded like the
  others.
\<close>

record lcb_confmon =
  cm_config :: "clconfig_info option"
  cm_last_error :: lcb_error_t
  cm_refreshing :: bool
  cm_rest_connection :: bool
  cm_start_status :: lcb_error_t
  cm_calls :: "confmon_call list"

definition lcb_confmon_is_refreshing :: "lcb_confmon \<Rightarrow> bool" where
  "lcb_confmon_is_refreshing mon = cm_refreshing mon"

definition lcb_confmon_get_config :: "lcb_confmon \<Rightarrow> clconfig_info option" where
  "lcb_confmon_get_config mon = cm_config mon"

definition lcb_confmon_last_error :: "lcb_confmon \<Rightarrow> lcb_error_t" where
  "lcb_confmon_last_error mon = cm_last_error mon"

definition lcb_confmon_get_rest_connection :: "lcb_confmon \<Rightarrow> bool" where
  "lcb_confmon_get_rest_connection mon = cm_rest_connection mon"

definition lcb_confmon_prepare :: "lcb_confmon \<Rightarrow> lcb_confmon" where
  "lcb_confmon_prepare mon = mon\<lparr>cm_calls := cm_calls mon @ [CM_prepare]\<rparr>"

definition lcb_confmon_start :: "lcb_confmon \<Rightarrow> lcb_error_t \<times> lcb_confmon" where
  "lcb_confmon_start mon = (cm_start_status mon, mon\<lparr>cm_calls := cm_calls mon @ [CM_start]\<rparr>)"

definition lcb_confmon_add_listener :: "lcb_confmon \<Rightarrow> lcb_confmon" where
  "lcb_confmon_add_listener mon = mon\<lparr>cm_calls := cm_calls mon @ [CM_add_listener]\<rparr>"

definition lcb_confmon_remove_listener :: "lcb_confmon \<Rightarrow> lcb_confmon" where
  "lcb_confmon_remove_listener mon = mon\<lparr>cm_calls := cm_calls mon @ [CM_remove_listener]\<rparr>"

definition lcb_confmon_set_provider_active ::
    "lcb_confmon \<Rightarrow> clconfig_method_t \<Rightarrow> bool \<Rightarrow> lcb_confmon" where
  "lcb_confmon_set_provider_active mon m on =
     mon\<lparr>cm_calls := cm_calls mon @ [CM_set_provider_active m on]\<rparr>"

text \<open>The settings \<open>bootstrap.c\<close> reads or writes.\<close>

record lcb_settings =
  config_timeout :: lcb_U32
  weird_things_threshold :: lcb_SIZE
  weird_things_delay :: lcb_U32
  bc_http_stream_time :: lcb_U32

text \<open>
  What the owner does when the file calls out of it: the user's two callbacks
  (\<open>callbacks.bootstrap\<close>, \<open>callbacks.error\<close>) and the hook \<open>lcb_maybe_breakout\<close>. Each call
  is recorded, in order, in the field \<open>calls\<close> of the instance.
\<close>

datatype owner_call =
  CB_bootstrap lcb_error_t | CB_error lcb_error_t string | Maybe_breakout

text \<open>
  The part of \<open>struct lcb_st\<close> the file uses. \<open>pendops\<close> is the counter of pending
  operations (\<open>LCB_PENDTYPE_COUNTER\<close>), an integer so that a decrement below zero shows.
\<close>

record lcb_st =
  bootstrap :: "lcb_bootstrap_st option"
  confmon :: lcb_confmon
  last_error :: lcb_error_t
  inst_type :: lcb_type_t
  dist_type :: lcbvb_dist_t
  cur_configinfo :: "clconfig_info option"
  pendops :: int
  settings :: lcb_settings
  calls :: "owner_call list"

text \<open>What a call of \<open>bootstrap_common\<close> reads from outside: the clock and whether
  \<open>calloc\<close> succeeds.\<close>

record env =
  gethrtime :: hrtime_t
  calloc_ok :: bool

subsection \<open>Helpers of the owner\<close>

text \<open>Modelled from the spec: \<open>lcb_aspend_add\<close> and \<open>lcb_aspend_del\<close> on the counter
  increment and decrement the owner's pending-operation counter.\<close>

definition lcb_aspend_add :: "lcb_st \<Rightarrow> lcb_st" where
  "lcb_aspend_add instance = instance\<lparr>pendops := pendops instance + 1\<rparr>"

definition lcb_aspend_del :: "lcb_st \<Rightarrow> lcb_st" where
  "lcb_aspend_del instance = instance\<lparr>pendops := pendops instance - 1\<rparr>"

text \<open>Modelled from the spec: \<open>lcb_update_vbconfig\<close> applies the new config snapshot as the
  owner's active topology.\<close>

definition lcb_update_vbconfig :: "lcb_st \<Rightarrow> clconfig_info option \<Rightarrow> lcb_st" where
  "lcb_update_vbconfig instance info = instance\<lparr>cur_configinfo := info\<rparr>"

text \<open>Modelled from the spec: the macro \<open>LCBT_VBCONFIG\<close> is the topology of the owner's
  valid config snapshot, null when there is none.\<close>

definition LCBT_VBCONFIG :: "lcb_st \<Rightarrow> nat option" where
  "LCBT_VBCONFIG instance = map_option vbc (cur_configinfo instance)"

definition callbacks_error :: "lcb_st \<Rightarrow> lcb_error_t \<Rightarrow> string \<Rightarrow> lcb_st" where
  "callbacks_error instance err errinfo =
     instance\<lparr>calls := calls instance @ [CB_error err errinfo]\<rparr>"

definition callbacks_bootstrap :: "lcb_st \<Rightarrow> lcb_error_t \<Rightarrow> lcb_st" where
  "callbacks_bootstrap instance err = instance\<lparr>calls := calls instance @ [CB_bootstrap err]\<rparr>"

definition lcb_maybe_breakout :: "lcb_st \<Rightarrow> lcb_st" where
  "lcb_maybe_breakout instance = instance\<lparr>calls := calls instance @ [Maybe_breakout]\<rparr>"

text \<open>Modelled from the spec: the macro \<open>LCB_US2NS\<close> turns microseconds into nanoseconds,
  in the width of \<open>hrtime_t\<close>.\<close>

definition LCB_US2NS :: "lcb_U32 \<Rightarrow> hrtime_t" where
  "LCB_US2NS us = ucast us * 1000"

subsection \<open>The functions of bootstrap.c\<close>

definition initial_bootstrap_error :: "lcb_st \<Rightarrow> lcb_error_t \<Rightarrow> string \<Rightarrow> fault + lcb_st" where
  "initial_bootstrap_error instance err errinfo =
     (let i1 = instance\<lparr>last_error := lcb_confmon_last_error (confmon instance)\<rparr>;
          i2 = (if last_error i1 = LCB_SUCCESS then i1\<lparr>last_error := err\<rparr> else i1);
          i3 = callbacks_error i2 (last_error i2) errinfo
      in case bootstrap i3 of
           None \<Rightarrow> Inl NullDeref
         | Some bs \<Rightarrow>
             (let i4 = i3\<lparr>bootstrap := Some (bs\<lparr>tm := lcbio_timer_disarm (tm bs)\<rparr>)\<rparr>;
                  i5 = callbacks_bootstrap i4 (last_error i4);
                  i6 = lcb_aspend_del i5
              in Inr (lcb_maybe_breakout i6)))"

text \<open>The condition of the inner \<open>if\<close> of \<open>config_callback\<close>, evaluated left to right:
  \<open>cur_configinfo\<close> is dereferenced only when the first two conjuncts hold.\<close>

definition reverting_to_http :: "lcb_st \<Rightarrow> fault + bool" where
  "reverting_to_http instance =
     (if inst_type instance = LCB_TYPE_BUCKET \<and> dist_type instance = LCBVB_DIST_KETAMA then
        (case cur_configinfo instance of
           None \<Rightarrow> Inl NullDeref
         | Some ci \<Rightarrow> Inr (origin ci \<noteq> LCB_CLCONFIG_MCRAW))
      else Inr False)"

definition config_callback ::
    "lcb_st \<Rightarrow> clconfig_event_t \<Rightarrow> clconfig_info option \<Rightarrow> fault + lcb_st" where
  "config_callback instance event info =
     (case bootstrap instance of
        None \<Rightarrow> Inl NullDeref
      | Some bs \<Rightarrow>
          if event \<noteq> CLCONFIG_EVENT_GOT_NEW_CONFIG then
            (if event = CLCONFIG_EVENT_PROVIDERS_CYCLED then
               (if LCBT_VBCONFIG instance = None then
                  initial_bootstrap_error instance LCB_ERROR ''No more bootstrap providers remain''
                else Inr instance)
             else Inr instance)
          else
            (let bs1 = bs\<lparr>listener := (listener bs)\<lparr>callback := Some FN_async_step_callback\<rparr>,
                          tm := lcbio_timer_disarm (tm bs)\<rparr>;
                 i1 = instance\<lparr>last_error := LCB_SUCCESS, bootstrap := Some bs1\<rparr>;
                 i2 = (if inst_type i1 \<noteq> LCB_TYPE_CLUSTER then lcb_update_vbconfig i1 info else i1)
             in if \<not> bootstrapped bs1 then
                  (let i3 = lcb_aspend_del (i2\<lparr>bootstrap := Some (bs1\<lparr>bootstrapped := True\<rparr>)\<rparr>)
                   in case reverting_to_http i3 of
                        Inl f \<Rightarrow> Inl f
                      | Inr revert \<Rightarrow>
                          (let i4 =
                             (if revert then
                                i3\<lparr>settings := (settings i3)\<lparr>bc_http_stream_time := - 1\<rparr>,
                                   confmon :=
                                     lcb_confmon_set_provider_active
                                       (lcb_confmon_set_provider_active (confmon i3)
                                          LCB_CLCONFIG_HTTP True)
                                       LCB_CLCONFIG_CCCP False\<rparr>
                              else i3)
                           in Inr (lcb_maybe_breakout (callbacks_bootstrap i4 LCB_SUCCESS))))
                else Inr (lcb_maybe_breakout i2)))"

text \<open>The timer hands its callbacks the session; here they get the instance that holds
  it, and reading \<open>bs->parent\<close> when there is no session is the null dereference.\<close>

definition initial_timeout :: "lcb_st \<Rightarrow> fault + lcb_st" where
  "initial_timeout instance =
     (case bootstrap instance of
        None \<Rightarrow> Inl NullDeref
      | Some bs \<Rightarrow> initial_bootstrap_error instance LCB_ETIMEDOUT ''Failed to bootstrap in time'')"

definition async_refresh :: "lcb_st \<Rightarrow> fault + lcb_st" where
  "async_refresh instance =
     (case bootstrap instance of
        None \<Rightarrow> Inl NullDeref
      | Some bs \<Rightarrow>
          (let info = lcb_confmon_get_config (confmon instance)
           in config_callback instance CLCONFIG_EVENT_GOT_NEW_CONFIG info))"

definition async_step_callback ::
    "lcb_st \<Rightarrow> clconfig_event_t \<Rightarrow> clconfig_info option \<Rightarrow> fault + lcb_st" where
  "async_step_callback instance event info =
     (case bootstrap instance of
        None \<Rightarrow> Inl NullDeref
      | Some bs \<Rightarrow>
          if event \<noteq> CLCONFIG_EVENT_GOT_NEW_CONFIG then Inr instance
          else if lcbio_timer_armed (tm bs) \<and> lcbio_timer_get_target (tm bs) = TGT_async_refresh
          then Inr instance
          else Inr (instance\<lparr>bootstrap :=
                 Some (bs\<lparr>tm := lcbio_async_signal
                                  (lcbio_timer_set_target (tm bs) TGT_async_refresh)\<rparr>)\<rparr>))"

text \<open>What \<open>calloc\<close> followed by \<open>lcbio_timer_new\<close> leaves in a new session: every field
  zero, the timer new with the initial timeout as its target.\<close>

definition new_bootstrap_st :: lcb_bootstrap_st where
  "new_bootstrap_st =
     \<lparr>listener = \<lparr>callback = None\<rparr>, tm = lcbio_timer_new TGT_initial_timeout,
      last_refresh = 0, bootstrapped = False, errcounter = 0\<rparr>"

definition bootstrap_common :: "lcb_st \<Rightarrow> bool \<Rightarrow> env \<Rightarrow> lcb_error_t \<times> lcb_st" where
  "bootstrap_common instance initial e =
     (if bootstrap instance \<noteq> None \<and> lcb_confmon_is_refreshing (confmon instance)
      then (LCB_SUCCESS, instance)
      else
        (case (case bootstrap instance of
                 Some bs \<Rightarrow> Some (bs, instance)
               | None \<Rightarrow>
                   if calloc_ok e then
                     Some (new_bootstrap_st,
                           instance\<lparr>bootstrap := Some new_bootstrap_st,
                                    confmon := lcb_confmon_add_listener (confmon instance)\<rparr>)
                   else None) of
           None \<Rightarrow> (LCB_CLIENT_ENOMEM, instance)
         | Some (bs, i1) \<Rightarrow>
             (let bs1 = bs\<lparr>last_refresh := gethrtime e\<rparr>;
                  i2 =
                    (if initial then
                       lcb_aspend_add
                         (i1\<lparr>bootstrap := Some (bs1\<lparr>
                               listener := (listener bs1)\<lparr>callback := Some FN_config_callback\<rparr>,
                               tm := lcbio_timer_rearm
                                       (lcbio_timer_set_target (tm bs1) TGT_initial_timeout)
                                       (config_timeout (settings i1))\<rparr>)\<rparr>)
                     else
                       i1\<lparr>bootstrap := Some (bs1\<lparr>
                            listener := (listener bs1)\<lparr>callback := Some FN_async_step_callback\<rparr>\<rparr>)\<rparr>);
                  (rc, mon) = lcb_confmon_start (confmon i2)
              in (rc, i2\<lparr>confmon := mon\<rparr>))))"

definition lcb_bootstrap_initial :: "lcb_st \<Rightarrow> env \<Rightarrow> lcb_error_t \<times> lcb_st" where
  "lcb_bootstrap_initial instance e =
     bootstrap_common (instance\<lparr>confmon := lcb_confmon_prepare (confmon instance)\<rparr>) True e"

definition lcb_bootstrap_refresh :: "lcb_st \<Rightarrow> env \<Rightarrow> lcb_error_t \<times> lcb_st" where
  "lcb_bootstrap_refresh instance e = bootstrap_common instance False e"

text \<open>\<open>now\<close> is the clock read at the top of the function; \<open>e\<close> is what the nested
  \<open>bootstrap_common\<close> reads. The counter is \<open>unsigned\<close> and the threshold \<open>lcb_SIZE\<close>, so the
  comparison is made in the wider type.\<close>

definition lcb_bootstrap_errcount_incr :: "lcb_st \<Rightarrow> hrtime_t \<Rightarrow> env \<Rightarrow> fault + lcb_st" where
  "lcb_bootstrap_errcount_incr instance now e =
     (case bootstrap instance of
        None \<Rightarrow> Inl NullDeref
      | Some bs \<Rightarrow>
          (let errthresh = weird_things_threshold (settings instance);
               bs1 = bs\<lparr>errcounter := errcounter bs + 1\<rparr>;
               next_refresh_time =
                 last_refresh bs1 + LCB_US2NS (weird_things_delay (settings instance))
           in if now < next_refresh_time \<and> ucast (errcounter bs1) < errthresh
              then Inr (instance\<lparr>bootstrap := Some bs1\<rparr>)
              else Inr (snd (lcb_bootstrap_refresh
                               (instance\<lparr>bootstrap := Some (bs1\<lparr>errcounter := 0\<rparr>)\<rparr>) e))))"

text \<open>The timer is part of the session here, so destroying it and freeing the session
  are the one step of dropping the session.\<close>

definition lcb_bootstrap_destroy :: "lcb_st \<Rightarrow> lcb_st" where
  "lcb_bootstrap_destroy instance =
     (case bootstrap instance of
        None \<Rightarrow> instance
      | Some bs \<Rightarrow>
          instance\<lparr>confmon := lcb_confmon_remove_listener (confmon instance),
                   bootstrap := None\<rparr>)"

definition lcb_get_bootstrap_status :: "lcb_st \<Rightarrow> lcb_error_t" where
  "lcb_get_bootstrap_status instance =
     (if cur_configinfo instance \<noteq> None then LCB_SUCCESS
      else if last_error instance \<noteq> LCB_SUCCESS then last_error instance
      else if inst_type instance = LCB_TYPE_CLUSTER
              \<and> lcb_confmon_get_rest_connection (confmon instance)
      then LCB_SUCCESS
      else LCB_ERROR)"

definition lcb_refresh_config :: "lcb_st \<Rightarrow> env \<Rightarrow> lcb_st" where
  "lcb_refresh_config instance e = snd (lcb_bootstrap_refresh instance e)"

subsection \<open>The event loop around the file\<close>

text \<open>
  Modelled from the spec: the ConfigMonitor delivers an event to a registered listener by
  calling the function its \<open>callback\<close> field holds. Without a session no listener is
  registered and nothing is called.
\<close>

definition deliver_event ::
    "lcb_st \<Rightarrow> clconfig_event_t \<Rightarrow> clconfig_info option \<Rightarrow> fault + lcb_st" where
  "deliver_event instance event info =
     (case bootstrap instance of
        None \<Rightarrow> Inr instance
      | Some bs \<Rightarrow>
          (case callback (listener bs) of
             None \<Rightarrow> Inl NullDeref
           | Some FN_config_callback \<Rightarrow> config_callback instance event info
           | Some FN_async_step_callback \<Rightarrow> async_step_callback instance event info))"

text \<open>
  Modelled from the spec: the Timer is a single-shot alarm. When an armed timer fires it is
  disarmed and its current target runs; a timer that is not armed does not fire.
\<close>

definition timer_fire :: "lcb_st \<Rightarrow> fault + lcb_st" where
  "timer_fire instance =
     (case bootstrap instance of
        None \<Rightarrow> Inr instance
      | Some bs \<Rightarrow>
          if \<not> lcbio_timer_armed (tm bs) then Inr instance
          else
            (let i1 = instance\<lparr>bootstrap := Some (bs\<lparr>tm := lcbio_timer_disarm (tm bs)\<rparr>)\<rparr>
             in case lcbio_timer_get_target (tm bs) of
                  TGT_initial_timeout \<Rightarrow> initial_timeout i1
                | TGT_async_refresh \<Rightarrow> async_refresh i1))"

text \<open>
  Everything that can happen to an instance: the five entry points of the file, an event
  from the monitor, the timer firing, and the monitor changing what its accessors report.
\<close>

datatype op =
  OP_bootstrap_initial env
  | OP_bootstrap_refresh env
  | OP_errcount_incr hrtime_t env
  | OP_destroy
  | OP_event clconfig_event_t "clconfig_info option"
  | OP_timer_fire
  | OP_monitor "clconfig_info option" lcb_error_t bool bool lcb_error_t

text \<open>The monitor changes what its accessors report; the record of calls stays.\<close>

definition monitor_change ::
    "clconfig_info option \<Rightarrow> lcb_error_t \<Rightarrow> bool \<Rightarrow> bool \<Rightarrow> lcb_error_t \<Rightarrow> lcb_st \<Rightarrow> lcb_st" where
  "monitor_change cfg err refreshing rest st s =
     s\<lparr>confmon := (confmon s)\<lparr>cm_config := cfg, cm_last_error := err,
          cm_refreshing := refreshing, cm_rest_connection := rest, cm_start_status := st\<rparr>\<rparr>"

fun step :: "op \<Rightarrow> lcb_st \<Rightarrow> fault + lcb_st" where
  "step (OP_bootstrap_initial e) s = Inr (snd (lcb_bootstrap_initial s e))"
| "step (OP_bootstrap_refresh e) s = Inr (snd (lcb_bootstrap_refresh s e))"
| "step (OP_errcount_incr now e) s = lcb_bootstrap_errcount_incr s now e"
| "step OP_destroy s = Inr (lcb_bootstrap_destroy s)"
| "step (OP_event event info) s = deliver_event s event info"
| "step OP_timer_fire s = timer_fire s"
| "step (OP_monitor cfg err refreshing rest st) s =
     Inr (monitor_change cfg err refreshing rest st s)"

fun run :: "op list \<Rightarrow> lcb_st \<Rightarrow> fault + lcb_st" where
  "run [] s = Inr s"
| "run (x # xs) s = (case step x s of Inl f \<Rightarrow> Inl f | Inr s' \<Rightarrow> run xs s')"

subsection \<open>Observations\<close>

text \<open>The statuses the bootstrap-completion callback was invoked with, in order.\<close>

fun completion :: "owner_call \<Rightarrow> lcb_error_t option" where
  "completion (CB_bootstrap err) = Some err"
| "completion (CB_error err errinfo) = None"
| "completion Maybe_breakout = None"

definition completions :: "lcb_st \<Rightarrow> lcb_error_t list" where
  "completions s = List.map_filter completion (calls s)"

text \<open>The function the session's listener currently dispatches to, if there is a session.\<close>

definition listener_target :: "lcb_st \<Rightarrow> listener_fn option" where
  "listener_target s = (case bootstrap s of None \<Rightarrow> None | Some bs \<Rightarrow> callback (listener bs))"

definition is_synchronous :: "lcb_st \<Rightarrow> bool" where
  "is_synchronous s = (listener_target s = Some FN_config_callback)"

text \<open>The session's timer is armed with the deferred dispatch as its target.\<close>

definition dispatch_pending :: "lcb_st \<Rightarrow> bool" where
  "dispatch_pending s =
     (case bootstrap s of
        None \<Rightarrow> False
      | Some bs \<Rightarrow> lcbio_timer_armed (tm bs) \<and> lcbio_timer_get_target (tm bs) = TGT_async_refresh)"

text \<open>The state with a deferred dispatch scheduled: as it is when one is pending already,
  else with the timer retargeted to the deferred dispatch and signalled.\<close>

definition scheduled :: "lcb_st \<Rightarrow> lcb_st" where
  "scheduled s =
     (case bootstrap s of
        None \<Rightarrow> s
      | Some bs \<Rightarrow>
          if dispatch_pending s then s
          else s\<lparr>bootstrap :=
                 Some (bs\<lparr>tm := \<lparr>armed = True, target = TGT_async_refresh, usec = 0\<rparr>\<rparr>)\<rparr>)"

text \<open>The state with the session's timer disarmed.\<close>

definition disarmed :: "lcb_st \<Rightarrow> lcb_st" where
  "disarmed s =
     (case bootstrap s of
        None \<Rightarrow> s
      | Some bs \<Rightarrow> s\<lparr>bootstrap := Some (bs\<lparr>tm := (tm bs)\<lparr>armed := False\<rparr>\<rparr>)\<rparr>)"

fun is_initial :: "op \<Rightarrow> bool" where
  "is_initial (OP_bootstrap_initial e) = True"
| "is_initial x = False"

text \<open>An operation that makes \<open>config_callback\<close> process a new-config event in state \<open>s\<close>:
  the event itself reaching the synchronous target, or the deferred dispatch firing.\<close>

fun processes_new_config :: "op \<Rightarrow> lcb_st \<Rightarrow> bool" where
  "processes_new_config (OP_event event info) s =
     (event = CLCONFIG_EVENT_GOT_NEW_CONFIG \<and> is_synchronous s)"
| "processes_new_config OP_timer_fire s = dispatch_pending s"
| "processes_new_config x s = False"

text \<open>No operation of the list, run from \<open>s\<close>, processes a new-config event.\<close>

fun quiet :: "op list \<Rightarrow> lcb_st \<Rightarrow> bool" where
  "quiet [] s = True"
| "quiet (x # xs) s =
     (if processes_new_config x s then False
      else (case step x s of Inl f \<Rightarrow> True | Inr s' \<Rightarrow> quiet xs s'))"

text \<open>Whether the session has had its first success.\<close>

definition reached_first_success :: "lcb_st \<Rightarrow> bool" where
  "reached_first_success s = (case bootstrap s of None \<Rightarrow> False | Some bs \<Rightarrow> bootstrapped bs)"

text \<open>How often the cluster-push provider was disabled, that is how often the
  provider adjustment of \<open>config_callback\<close> ran.\<close>

definition adjustments :: "lcb_st \<Rightarrow> nat" where
  "adjustments s =
     count_list (cm_calls (confmon s)) (CM_set_provider_active LCB_CLCONFIG_CCCP False)"

text \<open>A client before its first bootstrap: no session, nothing pending, no config, a
  bucket instance with vbucket distribution, threshold 3 and delay 1000 ms.\<close>

definition fresh_monitor :: lcb_confmon where
  "fresh_monitor =
     \<lparr>cm_config = None, cm_last_error = LCB_SUCCESS, cm_refreshing = False,
      cm_rest_connection = False, cm_start_status = LCB_SUCCESS, cm_calls = []\<rparr>"

definition fresh_instance :: lcb_st where
  "fresh_instance =
     \<lparr>bootstrap = None, confmon = fresh_monitor, last_error = LCB_SUCCESS,
      inst_type = LCB_TYPE_BUCKET, dist_type = LCBVB_DIST_VBUCKET, cur_configinfo = None,
      pendops = 0,
      settings = \<lparr>config_timeout = 5000000, weird_things_threshold = 3,
                  weird_things_delay = 1000000, bc_http_stream_time = 0\<rparr>,
      calls = []\<rparr>"

text \<open>The same client with a session as a refresh leaves it: the listener on the
  deferred target, the timer not armed, last refresh at time 5000.\<close>

definition idle_session :: lcb_bootstrap_st where
  "idle_session =
     \<lparr>listener = \<lparr>callback = Some FN_async_step_callback\<rparr>,
      tm = \<lparr>armed = False, target = TGT_initial_timeout, usec = 0\<rparr>,
      last_refresh = 5000, bootstrapped = False, errcounter = 0\<rparr>"

definition session_instance :: lcb_st where
  "session_instance = fresh_instance\<lparr>bootstrap := Some idle_session\<rparr>"

definition some_config :: clconfig_info where
  "some_config = \<lparr>origin = LCB_CLCONFIG_HTTP, vbc = 7\<rparr>"

definition other_config :: clconfig_info where
  "other_config = \<lparr>origin = LCB_CLCONFIG_CCCP, vbc = 8\<rparr>"

text \<open>A fresh bucket client with point-based (ketama) distribution.\<close>

definition ketama_instance :: lcb_st where
  "ketama_instance = fresh_instance\<lparr>dist_type := LCBVB_DIST_KETAMA\<rparr>"

definition env0 :: env where
  "env0 = \<lparr>gethrtime = 9000, calloc_ok = True\<rparr>"

section \<open>Unfolding the collaborators\<close>

lemmas timer_defs = lcbio_timer_new_def lcbio_timer_disarm_def lcbio_timer_rearm_def
  lcbio_timer_armed_def lcbio_timer_get_target_def lcbio_timer_set_target_def lcbio_async_signal_def

lemmas monitor_defs = lcb_confmon_is_refreshing_def lcb_confmon_get_config_def
  lcb_confmon_last_error_def lcb_confmon_get_rest_connection_def lcb_confmon_prepare_def
  lcb_confmon_start_def lcb_confmon_add_listener_def lcb_confmon_remove_listener_def
  lcb_confmon_set_provider_active_def

lemmas owner_defs = lcb_aspend_add_def lcb_aspend_del_def lcb_update_vbconfig_def
  LCBT_VBCONFIG_def callbacks_error_def callbacks_bootstrap_def lcb_maybe_breakout_def

lemmas example_defs = fresh_instance_def fresh_monitor_def idle_session_def session_instance_def
  some_config_def other_config_def env0_def

lemmas machine_defs = initial_bootstrap_error_def reverting_to_http_def config_callback_def
  initial_timeout_def async_refresh_def async_step_callback_def new_bootstrap_st_def
  bootstrap_common_def lcb_bootstrap_initial_def lcb_bootstrap_refresh_def
  lcb_bootstrap_errcount_incr_def lcb_bootstrap_destroy_def deliver_event_def timer_fire_def
  monitor_change_def Let_def

lemmas obs_defs = listener_target_def reached_first_success_def adjustments_def

section \<open>The failure path\<close>

text \<open>With a session, \<open>initial_bootstrap_error\<close> reports the monitor's last error, or the
  given one when the monitor has none, to both callbacks, disarms the timer and decrements
  the pending counter.\<close>

lemma initial_bootstrap_error_session:
  "bootstrap i = Some bs \<Longrightarrow>
   initial_bootstrap_error i err errinfo =
     Inr (i\<lparr>last_error := (if cm_last_error (confmon i) = LCB_SUCCESS then err
                            else cm_last_error (confmon i)),
            bootstrap := Some (bs\<lparr>tm := (tm bs)\<lparr>armed := False\<rparr>\<rparr>),
            pendops := pendops i - 1,
            calls := calls i @
              [CB_error (if cm_last_error (confmon i) = LCB_SUCCESS then err
                         else cm_last_error (confmon i)) errinfo,
               CB_bootstrap (if cm_last_error (confmon i) = LCB_SUCCESS then err
                             else cm_last_error (confmon i)),
               Maybe_breakout]\<rparr>)"
  by (simp add: initial_bootstrap_error_def Let_def timer_defs monitor_defs owner_defs)

section \<open>Providers exhausted\<close>

text \<open>
  Claim C7. A providers-exhausted event handled by \<open>config_callback\<close>: when the owner holds
  no valid config snapshot, the failure path runs with the reason "No more bootstrap
  providers remain" (both callbacks are invoked with the reported error); when the owner
  holds one, the event is ignored and the state is unchanged.
\<close>

theorem providers_cycled:
  "bootstrap i = Some bs \<Longrightarrow>
   (cur_configinfo i = None \<longrightarrow>
      config_callback i CLCONFIG_EVENT_PROVIDERS_CYCLED info =
        initial_bootstrap_error i LCB_ERROR ''No more bootstrap providers remain'' \<and>
      (\<exists>i'. config_callback i CLCONFIG_EVENT_PROVIDERS_CYCLED info = Inr i' \<and>
         calls i' = calls i @
           [CB_error (if cm_last_error (confmon i) = LCB_SUCCESS then LCB_ERROR
                      else cm_last_error (confmon i)) ''No more bootstrap providers remain'',
            CB_bootstrap (if cm_last_error (confmon i) = LCB_SUCCESS then LCB_ERROR
                          else cm_last_error (confmon i)),
            Maybe_breakout])) \<and>
   (cur_configinfo i \<noteq> None \<longrightarrow>
      config_callback i CLCONFIG_EVENT_PROVIDERS_CYCLED info = Inr i)"
  by (simp add: config_callback_def LCBT_VBCONFIG_def initial_bootstrap_error_session)

theorem providers_cycled_witness:
  "bootstrap session_instance = Some idle_session \<and>
   cur_configinfo session_instance = None \<and>
   config_callback session_instance CLCONFIG_EVENT_PROVIDERS_CYCLED None =
     initial_bootstrap_error session_instance LCB_ERROR ''No more bootstrap providers remain'' \<and>
   (\<exists>i'. config_callback session_instance CLCONFIG_EVENT_PROVIDERS_CYCLED None = Inr i' \<and>
      calls i' = [CB_error LCB_ERROR ''No more bootstrap providers remain'',
                  CB_bootstrap LCB_ERROR, Maybe_breakout]) \<and>
   cur_configinfo (session_instance\<lparr>cur_configinfo := Some some_config\<rparr>) \<noteq> None \<and>
   config_callback (session_instance\<lparr>cur_configinfo := Some some_config\<rparr>)
       CLCONFIG_EVENT_PROVIDERS_CYCLED None =
     Inr (session_instance\<lparr>cur_configinfo := Some some_config\<rparr>)"
proof -
  have h1: "bootstrap session_instance = Some idle_session"
    by (simp add: session_instance_def)
  have h2: "bootstrap (session_instance\<lparr>cur_configinfo := Some some_config\<rparr>) = Some idle_session"
    by (simp add: session_instance_def)
  have c: "cur_configinfo session_instance = None"
    by (simp add: session_instance_def fresh_instance_def)
  have m: "cm_last_error (confmon session_instance) = LCB_SUCCESS"
    by (simp add: session_instance_def fresh_instance_def fresh_monitor_def)
  have l: "calls session_instance = []"
    by (simp add: session_instance_def fresh_instance_def)
  show ?thesis
    using providers_cycled [OF h1, of None] providers_cycled [OF h2, of None]
    by (simp add: h1 c m l initial_bootstrap_error_session [OF h1])
qed

section \<open>A refresh already in flight\<close>

text \<open>
  Claim C5. When a session exists and the monitor reports that it is refreshing,
  \<open>bootstrap_common\<close> returns success and leaves the instance as it was, in either mode: the
  timer, the time of the last refresh, the pending counter and the listener target are
  untouched. Through \<open>lcb_bootstrap_initial\<close> the only change is the monitor's \<open>prepare\<close>,
  made before \<open>bootstrap_common\<close> is entered.
\<close>

theorem dedup:
  "bootstrap i = Some bs \<Longrightarrow> cm_refreshing (confmon i) \<Longrightarrow>
   bootstrap_common i initial e = (LCB_SUCCESS, i) \<and>
   lcb_bootstrap_refresh i e = (LCB_SUCCESS, i) \<and>
   lcb_bootstrap_initial i e =
     (LCB_SUCCESS, i\<lparr>confmon := (confmon i)\<lparr>cm_calls := cm_calls (confmon i) @ [CM_prepare]\<rparr>\<rparr>)"
  by (simp add: bootstrap_common_def lcb_bootstrap_refresh_def lcb_bootstrap_initial_def monitor_defs)

theorem dedup_witness:
  "bootstrap (session_instance\<lparr>confmon := fresh_monitor\<lparr>cm_refreshing := True\<rparr>\<rparr>) = Some idle_session \<and>
   cm_refreshing (confmon (session_instance\<lparr>confmon := fresh_monitor\<lparr>cm_refreshing := True\<rparr>\<rparr>)) \<and>
   bootstrap_common (session_instance\<lparr>confmon := fresh_monitor\<lparr>cm_refreshing := True\<rparr>\<rparr>) True env0 =
     (LCB_SUCCESS, session_instance\<lparr>confmon := fresh_monitor\<lparr>cm_refreshing := True\<rparr>\<rparr>) \<and>
   lcb_bootstrap_refresh (session_instance\<lparr>confmon := fresh_monitor\<lparr>cm_refreshing := True\<rparr>\<rparr>) env0 =
     (LCB_SUCCESS, session_instance\<lparr>confmon := fresh_monitor\<lparr>cm_refreshing := True\<rparr>\<rparr>) \<and>
   bootstrap (snd (lcb_bootstrap_initial
      (session_instance\<lparr>confmon := fresh_monitor\<lparr>cm_refreshing := True\<rparr>\<rparr>) env0)) = Some idle_session \<and>
   pendops (snd (lcb_bootstrap_initial
      (session_instance\<lparr>confmon := fresh_monitor\<lparr>cm_refreshing := True\<rparr>\<rparr>) env0)) = 0"
proof -
  have h: "bootstrap (session_instance\<lparr>confmon := fresh_monitor\<lparr>cm_refreshing := True\<rparr>\<rparr>) = Some idle_session"
    by (simp add: session_instance_def)
  have r: "cm_refreshing (confmon (session_instance\<lparr>confmon := fresh_monitor\<lparr>cm_refreshing := True\<rparr>\<rparr>))"
    by simp
  have p: "pendops session_instance = 0"
    by (simp add: session_instance_def fresh_instance_def)
  have h0: "bootstrap session_instance = Some idle_session"
    by (simp add: session_instance_def)
  show ?thesis
    using dedup [OF h r, of True env0] by (simp add: h0 p)
qed

section \<open>Throttled refresh on errors\<close>

lemma bootstrap_common_errcounter:
  "bootstrap i = Some bs \<Longrightarrow>
   map_option errcounter (bootstrap (snd (bootstrap_common i initial e))) = Some (errcounter bs)"
  by (simp add: bootstrap_common_def Let_def monitor_defs owner_defs timer_defs split: prod.splits)

text \<open>
  Claim C2. On an existing session \<open>lcb_bootstrap_errcount_incr\<close> increments the error
  counter; if the clock is before the last refresh plus the configured delay and the
  incremented counter is below the configured threshold, only the counter changes;
  otherwise the counter is reset to 0 and a refresh-mode bootstrap runs. With threshold 3
  and delay 1000 ms, starting from a counter of 0, two calls inside the window request no
  refresh and the third runs one refresh and leaves the counter at 0.
\<close>

theorem errcount_incr_throttle:
  "bootstrap i = Some bs \<Longrightarrow>
   lcb_bootstrap_errcount_incr i now e =
     (if now < last_refresh bs + LCB_US2NS (weird_things_delay (settings i))
         \<and> ucast (errcounter bs + 1) < weird_things_threshold (settings i)
      then Inr (i\<lparr>bootstrap := Some (bs\<lparr>errcounter := errcounter bs + 1\<rparr>)\<rparr>)
      else Inr (snd (lcb_bootstrap_refresh (i\<lparr>bootstrap := Some (bs\<lparr>errcounter := 0\<rparr>)\<rparr>) e))) \<and>
   (errcounter bs = 0 \<and> weird_things_threshold (settings i) = 3
      \<and> weird_things_delay (settings i) = 1000000
      \<and> now1 < last_refresh bs + LCB_US2NS 1000000
      \<and> now2 < last_refresh bs + LCB_US2NS 1000000
      \<and> now3 < last_refresh bs + LCB_US2NS 1000000 \<longrightarrow>
      run [OP_errcount_incr now1 e1, OP_errcount_incr now2 e2] i =
        Inr (i\<lparr>bootstrap := Some (bs\<lparr>errcounter := 2\<rparr>)\<rparr>) \<and>
      run [OP_errcount_incr now1 e1, OP_errcount_incr now2 e2, OP_errcount_incr now3 e3] i =
        Inr (snd (lcb_bootstrap_refresh (i\<lparr>bootstrap := Some (bs\<lparr>errcounter := 0\<rparr>)\<rparr>) e3)) \<and>
      map_option errcounter (bootstrap (snd (lcb_bootstrap_refresh
          (i\<lparr>bootstrap := Some (bs\<lparr>errcounter := 0\<rparr>)\<rparr>) e3))) = Some 0)"
  by (simp add: lcb_bootstrap_errcount_incr_def Let_def lcb_bootstrap_refresh_def
      bootstrap_common_errcounter)

theorem errcount_incr_throttle_witness:
  "bootstrap session_instance = Some idle_session \<and>
   errcounter idle_session = 0 \<and>
   weird_things_threshold (settings session_instance) = 3 \<and>
   weird_things_delay (settings session_instance) = 1000000 \<and>
   (6000 :: hrtime_t) < last_refresh idle_session + LCB_US2NS 1000000 \<and>
   (7000 :: hrtime_t) < last_refresh idle_session + LCB_US2NS 1000000 \<and>
   (8000 :: hrtime_t) < last_refresh idle_session + LCB_US2NS 1000000 \<and>
   lcb_bootstrap_errcount_incr session_instance 6000 env0 =
     Inr (session_instance\<lparr>bootstrap := Some (idle_session\<lparr>errcounter := 1\<rparr>)\<rparr>) \<and>
   run [OP_errcount_incr 6000 env0, OP_errcount_incr 7000 env0] session_instance =
     Inr (session_instance\<lparr>bootstrap := Some (idle_session\<lparr>errcounter := 2\<rparr>)\<rparr>) \<and>
   run [OP_errcount_incr 6000 env0, OP_errcount_incr 7000 env0, OP_errcount_incr 8000 env0]
       session_instance =
     Inr (snd (lcb_bootstrap_refresh
        (session_instance\<lparr>bootstrap := Some (idle_session\<lparr>errcounter := 0\<rparr>)\<rparr>) env0)) \<and>
   cm_calls (confmon (snd (lcb_bootstrap_refresh
        (session_instance\<lparr>bootstrap := Some (idle_session\<lparr>errcounter := 0\<rparr>)\<rparr>) env0))) =
     [CM_start]"
proof -
  have h: "bootstrap session_instance = Some idle_session"
    by (simp add: session_instance_def)
  have c: "errcounter idle_session = 0"
    by (simp add: idle_session_def)
  have t: "weird_things_threshold (settings session_instance) = 3"
      "weird_things_delay (settings session_instance) = 1000000"
    by (simp_all add: session_instance_def fresh_instance_def)
  have w: "(6000 :: hrtime_t) < last_refresh idle_session + LCB_US2NS 1000000"
      "(7000 :: hrtime_t) < last_refresh idle_session + LCB_US2NS 1000000"
      "(8000 :: hrtime_t) < last_refresh idle_session + LCB_US2NS 1000000"
    by (simp_all add: LCB_US2NS_def idle_session_def)
  have m: "cm_calls (confmon (snd (lcb_bootstrap_refresh
        (session_instance\<lparr>bootstrap := Some (idle_session\<lparr>errcounter := 0\<rparr>)\<rparr>) env0))) =
     [CM_start]"
    by (simp add: lcb_bootstrap_refresh_def bootstrap_common_def example_defs monitor_defs)
  note T = errcount_incr_throttle [OF h, of 6000 env0 6000 7000 8000 env0 env0 env0]
  have first: "lcb_bootstrap_errcount_incr session_instance 6000 env0 =
     Inr (session_instance\<lparr>bootstrap := Some (idle_session\<lparr>errcounter := 1\<rparr>)\<rparr>)"
    using T [THEN conjunct1] by (simp add: c t w)
  have rest: "run [OP_errcount_incr 6000 env0, OP_errcount_incr 7000 env0] session_instance =
       Inr (session_instance\<lparr>bootstrap := Some (idle_session\<lparr>errcounter := 2\<rparr>)\<rparr>) \<and>
     run [OP_errcount_incr 6000 env0, OP_errcount_incr 7000 env0, OP_errcount_incr 8000 env0]
         session_instance =
       Inr (snd (lcb_bootstrap_refresh
          (session_instance\<lparr>bootstrap := Some (idle_session\<lparr>errcounter := 0\<rparr>)\<rparr>) env0))"
    using T [THEN conjunct2] c t w by blast
  show ?thesis
    using h c t w first rest m by blast
qed

section \<open>The session pointer at the public entry points\<close>

lemma bootstrap_common_keeps_session:
  "bootstrap i = Some bs \<Longrightarrow> \<exists>bs'. bootstrap (snd (bootstrap_common i initial e)) = Some bs'"
  by (simp add: bootstrap_common_def Let_def monitor_defs owner_defs split: prod.splits)

text \<open>
  Claim C10. \<open>lcb_bootstrap_errcount_incr\<close> dereferences the session pointer without a
  check: without a session it is a null dereference, with a session it returns normally
  and a session is still there. The other entry points handle the missing session:
  \<open>lcb_bootstrap_destroy\<close> returns at once, \<open>lcb_bootstrap_initial\<close> and
  \<open>lcb_bootstrap_refresh\<close> allocate one or report out of memory, and
  \<open>lcb_get_bootstrap_status\<close> never looks at it.
\<close>

theorem errcount_incr_needs_session:
  "(bootstrap i = None \<longrightarrow> lcb_bootstrap_errcount_incr i now e = Inl NullDeref) \<and>
   (bootstrap i \<noteq> None \<longrightarrow>
      (\<exists>i'. lcb_bootstrap_errcount_incr i now e = Inr i' \<and> bootstrap i' \<noteq> None)) \<and>
   (bootstrap i = None \<longrightarrow>
      lcb_bootstrap_destroy i = i \<and>
      (calloc_ok e \<longrightarrow>
         bootstrap (snd (lcb_bootstrap_refresh i e)) \<noteq> None \<and>
         bootstrap (snd (lcb_bootstrap_initial i e)) \<noteq> None) \<and>
      (\<not> calloc_ok e \<longrightarrow>
         lcb_bootstrap_refresh i e = (LCB_CLIENT_ENOMEM, i) \<and>
         fst (lcb_bootstrap_initial i e) = LCB_CLIENT_ENOMEM \<and>
         bootstrap (snd (lcb_bootstrap_initial i e)) = None)) \<and>
   lcb_get_bootstrap_status (i\<lparr>bootstrap := b\<rparr>) = lcb_get_bootstrap_status i"
proof (intro conjI impI)
  assume "bootstrap i = None"
  then show "lcb_bootstrap_errcount_incr i now e = Inl NullDeref"
    by (simp add: lcb_bootstrap_errcount_incr_def)
next
  assume "bootstrap i \<noteq> None"
  then obtain bs where bs: "bootstrap i = Some bs" by auto
  show "\<exists>i'. lcb_bootstrap_errcount_incr i now e = Inr i' \<and> bootstrap i' \<noteq> None"
    using bootstrap_common_keeps_session [of "i\<lparr>bootstrap := Some (bs\<lparr>errcounter := 0\<rparr>)\<rparr>" _ False e]
    by (auto simp add: lcb_bootstrap_errcount_incr_def Let_def bs lcb_bootstrap_refresh_def)
next
  assume "bootstrap i = None"
  then show "lcb_bootstrap_destroy i = i"
    by (simp add: lcb_bootstrap_destroy_def)
next
  assume "bootstrap i = None" "calloc_ok e"
  then show "bootstrap (snd (lcb_bootstrap_refresh i e)) \<noteq> None"
    by (simp add: lcb_bootstrap_refresh_def bootstrap_common_def Let_def monitor_defs)
next
  assume "bootstrap i = None" "calloc_ok e"
  then show "bootstrap (snd (lcb_bootstrap_initial i e)) \<noteq> None"
    by (simp add: lcb_bootstrap_initial_def bootstrap_common_def Let_def monitor_defs owner_defs)
next
  assume "bootstrap i = None" "\<not> calloc_ok e"
  then show "lcb_bootstrap_refresh i e = (LCB_CLIENT_ENOMEM, i)"
    by (simp add: lcb_bootstrap_refresh_def bootstrap_common_def)
next
  assume "bootstrap i = None" "\<not> calloc_ok e"
  then show "fst (lcb_bootstrap_initial i e) = LCB_CLIENT_ENOMEM"
    by (simp add: lcb_bootstrap_initial_def bootstrap_common_def)
next
  assume "bootstrap i = None" "\<not> calloc_ok e"
  then show "bootstrap (snd (lcb_bootstrap_initial i e)) = None"
    by (simp add: lcb_bootstrap_initial_def bootstrap_common_def)
next
  show "lcb_get_bootstrap_status (i\<lparr>bootstrap := b\<rparr>) = lcb_get_bootstrap_status i"
    by (simp add: lcb_get_bootstrap_status_def)
qed

theorem errcount_incr_needs_session_witness:
  "bootstrap fresh_instance = None \<and>
   lcb_bootstrap_errcount_incr fresh_instance 6000 env0 = Inl NullDeref \<and>
   bootstrap session_instance \<noteq> None \<and>
   (\<exists>i'. lcb_bootstrap_errcount_incr session_instance 6000 env0 = Inr i' \<and> bootstrap i' \<noteq> None) \<and>
   lcb_bootstrap_destroy fresh_instance = fresh_instance \<and>
   calloc_ok env0 \<and>
   bootstrap (snd (lcb_bootstrap_refresh fresh_instance env0)) \<noteq> None \<and>
   bootstrap (snd (lcb_bootstrap_initial fresh_instance env0)) \<noteq> None \<and>
   \<not> calloc_ok (env0\<lparr>calloc_ok := False\<rparr>) \<and>
   lcb_bootstrap_refresh fresh_instance (env0\<lparr>calloc_ok := False\<rparr>) =
     (LCB_CLIENT_ENOMEM, fresh_instance)"
proof -
  have f: "bootstrap fresh_instance = None"
    by (simp add: fresh_instance_def)
  have s: "bootstrap session_instance \<noteq> None"
    by (simp add: session_instance_def)
  have a: "calloc_ok env0" "\<not> calloc_ok (env0\<lparr>calloc_ok := False\<rparr>)"
    by (simp_all add: env0_def)
  show ?thesis
    using errcount_incr_needs_session [of fresh_instance 6000 env0 None]
      errcount_incr_needs_session [of session_instance 6000 env0 None]
      errcount_incr_needs_session [of fresh_instance 6000 "env0\<lparr>calloc_ok := False\<rparr>" None]
      f s a
    by blast
qed

section \<open>The status query\<close>

text \<open>
  Claim C9. \<open>lcb_get_bootstrap_status\<close> answers, in this order of precedence: success when
  the owner holds a config snapshot; else the owner's last error when it is not success;
  else success for a cluster instance with an established management connection; else
  the generic error \<open>LCB_ERROR\<close>. It is a function of the instance alone and returns
  nothing but the status, so no state is modified.
\<close>

theorem status_precedence:
  "(cur_configinfo i \<noteq> None \<longrightarrow> lcb_get_bootstrap_status i = LCB_SUCCESS) \<and>
   (cur_configinfo i = None \<and> last_error i \<noteq> LCB_SUCCESS \<longrightarrow>
      lcb_get_bootstrap_status i = last_error i) \<and>
   (cur_configinfo i = None \<and> last_error i = LCB_SUCCESS \<and> inst_type i = LCB_TYPE_CLUSTER
      \<and> cm_rest_connection (confmon i) \<longrightarrow> lcb_get_bootstrap_status i = LCB_SUCCESS) \<and>
   (cur_configinfo i = None \<and> last_error i = LCB_SUCCESS
      \<and> \<not> (inst_type i = LCB_TYPE_CLUSTER \<and> cm_rest_connection (confmon i)) \<longrightarrow>
      lcb_get_bootstrap_status i = LCB_ERROR)"
  by (simp add: lcb_get_bootstrap_status_def lcb_confmon_get_rest_connection_def)

theorem status_precedence_witness:
  "lcb_get_bootstrap_status
     (fresh_instance\<lparr>cur_configinfo := Some some_config, last_error := LCB_ETIMEDOUT\<rparr>) =
     LCB_SUCCESS \<and>
   lcb_get_bootstrap_status
     (fresh_instance\<lparr>last_error := LCB_ETIMEDOUT, inst_type := LCB_TYPE_CLUSTER,
        confmon := fresh_monitor\<lparr>cm_rest_connection := True\<rparr>\<rparr>) = LCB_ETIMEDOUT \<and>
   lcb_get_bootstrap_status
     (fresh_instance\<lparr>inst_type := LCB_TYPE_CLUSTER,
        confmon := fresh_monitor\<lparr>cm_rest_connection := True\<rparr>\<rparr>) = LCB_SUCCESS \<and>
   lcb_get_bootstrap_status fresh_instance = LCB_ERROR"
  using status_precedence
      [of "fresh_instance\<lparr>cur_configinfo := Some some_config, last_error := LCB_ETIMEDOUT\<rparr>"]
    status_precedence
      [of "fresh_instance\<lparr>last_error := LCB_ETIMEDOUT, inst_type := LCB_TYPE_CLUSTER,
        confmon := fresh_monitor\<lparr>cm_rest_connection := True\<rparr>\<rparr>"]
    status_precedence
      [of "fresh_instance\<lparr>inst_type := LCB_TYPE_CLUSTER,
        confmon := fresh_monitor\<lparr>cm_rest_connection := True\<rparr>\<rparr>"]
    status_precedence [of fresh_instance]
  by (simp add: fresh_instance_def fresh_monitor_def)

section \<open>Allocation failure\<close>

text \<open>
  Claim C6, as the code has it. When there is no session and the allocation fails,
  \<open>bootstrap_common\<close> returns \<open>LCB_CLIENT_ENOMEM\<close> and leaves the instance as it was, so a
  refresh has no effect at all. \<open>lcb_bootstrap_initial\<close> has called the monitor's \<open>prepare\<close>
  before \<open>bootstrap_common\<close> is entered; that call is its only effect: no listener is
  registered, the monitor is not started, and the session, timer and pending counter
  are untouched.
\<close>

theorem alloc_failure:
  "bootstrap i = None \<Longrightarrow> \<not> calloc_ok e \<Longrightarrow>
   bootstrap_common i initial e = (LCB_CLIENT_ENOMEM, i) \<and>
   lcb_bootstrap_refresh i e = (LCB_CLIENT_ENOMEM, i) \<and>
   lcb_bootstrap_initial i e =
     (LCB_CLIENT_ENOMEM,
      i\<lparr>confmon := (confmon i)\<lparr>cm_calls := cm_calls (confmon i) @ [CM_prepare]\<rparr>\<rparr>)"
  by (simp add: bootstrap_common_def lcb_bootstrap_refresh_def lcb_bootstrap_initial_def
      lcb_confmon_prepare_def)

theorem alloc_failure_witness:
  "bootstrap fresh_instance = None \<and> \<not> calloc_ok (env0\<lparr>calloc_ok := False\<rparr>) \<and>
   bootstrap_common fresh_instance True (env0\<lparr>calloc_ok := False\<rparr>) =
     (LCB_CLIENT_ENOMEM, fresh_instance) \<and>
   lcb_bootstrap_refresh fresh_instance (env0\<lparr>calloc_ok := False\<rparr>) =
     (LCB_CLIENT_ENOMEM, fresh_instance) \<and>
   lcb_bootstrap_initial fresh_instance (env0\<lparr>calloc_ok := False\<rparr>) =
     (LCB_CLIENT_ENOMEM, fresh_instance\<lparr>confmon := fresh_monitor\<lparr>cm_calls := [CM_prepare]\<rparr>\<rparr>)"
proof -
  have f: "bootstrap fresh_instance = None"
    by (simp add: fresh_instance_def)
  have a: "\<not> calloc_ok (env0\<lparr>calloc_ok := False\<rparr>)"
    by simp
  have m: "confmon fresh_instance = fresh_monitor" "cm_calls fresh_monitor = []"
    by (simp_all add: fresh_instance_def fresh_monitor_def)
  show ?thesis
    using alloc_failure [OF f a, of True] by (simp add: f m)
qed

text \<open>The claim as stated (no side effect on the monitor for every bootstrap call whose
  allocation fails) does not hold for \<open>lcb_bootstrap_initial\<close>: on a fresh client the
  monitor has been prepared when the call returns out of memory.\<close>

theorem alloc_failure_initial_counterexample:
  "bootstrap fresh_instance = None \<and> \<not> calloc_ok (env0\<lparr>calloc_ok := False\<rparr>) \<and>
   fst (lcb_bootstrap_initial fresh_instance (env0\<lparr>calloc_ok := False\<rparr>)) = LCB_CLIENT_ENOMEM \<and>
   confmon (snd (lcb_bootstrap_initial fresh_instance (env0\<lparr>calloc_ok := False\<rparr>))) \<noteq>
     confmon fresh_instance \<and>
   cm_calls (confmon fresh_instance) = [] \<and>
   cm_calls (confmon (snd (lcb_bootstrap_initial fresh_instance (env0\<lparr>calloc_ok := False\<rparr>)))) =
     [CM_prepare]"
  by (simp add: lcb_bootstrap_initial_def bootstrap_common_def lcb_confmon_prepare_def
      fresh_instance_def fresh_monitor_def env0_def)

section \<open>Resolution of an initial bootstrap\<close>

text \<open>
  Claim C1 says that one initial-bootstrap attempt invokes the completion callback at most
  once and decrements the pending counter exactly once, also when a new config is
  processed after the initial timeout has fired. The code at that input: a fresh client
  starts an initial bootstrap (counter 1), the timer fires (completion with
  \<open>LCB_ETIMEDOUT\<close>, counter 0, and \<open>bootstrapped\<close> still unset), then the monitor delivers a
  new config to the listener, which is still \<open>config_callback\<close>: the completion callback
  is invoked a second time, with \<open>LCB_SUCCESS\<close>, and the counter is decremented to -1.
  The failure path repeats in the same way: two providers-exhausted events before any
  config give two completions with \<open>LCB_ERROR\<close> and the counter -1.
\<close>

theorem timeout_then_config_resolves_twice:
  "(case run [OP_bootstrap_initial env0] fresh_instance of
      Inl f \<Rightarrow> False
    | Inr s \<Rightarrow> pendops s = 1 \<and> completions s = []) \<and>
   (case run [OP_bootstrap_initial env0, OP_timer_fire] fresh_instance of
      Inl f \<Rightarrow> False
    | Inr s \<Rightarrow> pendops s = 0 \<and> completions s = [LCB_ETIMEDOUT] \<and> \<not> reached_first_success s) \<and>
   (case run [OP_bootstrap_initial env0, OP_timer_fire,
              OP_event CLCONFIG_EVENT_GOT_NEW_CONFIG (Some some_config)] fresh_instance of
      Inl f \<Rightarrow> False
    | Inr s \<Rightarrow> pendops s = - 1 \<and> completions s = [LCB_ETIMEDOUT, LCB_SUCCESS]) \<and>
   (case run [OP_bootstrap_initial env0, OP_event CLCONFIG_EVENT_PROVIDERS_CYCLED None,
              OP_event CLCONFIG_EVENT_PROVIDERS_CYCLED None] fresh_instance of
      Inl f \<Rightarrow> False
    | Inr s \<Rightarrow> pendops s = - 1 \<and> completions s = [LCB_ERROR, LCB_ERROR])"
  by (simp add: LCBT_VBCONFIG_def lcb_bootstrap_initial_def bootstrap_common_def Let_def new_bootstrap_st_def
      timer_fire_def initial_timeout_def initial_bootstrap_error_def deliver_event_def
      config_callback_def reverting_to_http_def completions_def List.map_filter_def
      reached_first_success_def
      timer_defs monitor_defs owner_defs example_defs)

section \<open>Coalescing of deferred dispatches\<close>

lemma run_append:
  "run (xs @ ys) s = (case run xs s of Inl f \<Rightarrow> Inl f | Inr s' \<Rightarrow> run ys s')"
  by (induction xs arbitrary: s) (auto split: sum.splits)

lemma run_snoc:
  "run (xs @ [x]) s = (case run xs s of Inl f \<Rightarrow> Inl f | Inr s' \<Rightarrow> step x s')"
  by (simp add: run_append split: sum.splits)

lemma deferred_event_dropped:
  "dispatch_pending s \<Longrightarrow> listener_target s = Some FN_async_step_callback \<Longrightarrow>
   deliver_event s CLCONFIG_EVENT_GOT_NEW_CONFIG info = Inr s"
  by (auto simp add: dispatch_pending_def listener_target_def deliver_event_def
      async_step_callback_def split: option.splits)

lemma deferred_events_dropped:
  "dispatch_pending s \<Longrightarrow> listener_target s = Some FN_async_step_callback \<Longrightarrow>
   run (map (OP_event CLCONFIG_EVENT_GOT_NEW_CONFIG) infos) s = Inr s"
  by (induction infos) (simp_all add: deferred_event_dropped)

lemma deferred_event_schedules:
  "bootstrap s = Some bs \<Longrightarrow> callback (listener bs) = Some FN_async_step_callback \<Longrightarrow>
   deliver_event s CLCONFIG_EVENT_GOT_NEW_CONFIG info = Inr (scheduled s)"
  by (simp add: deliver_event_def async_step_callback_def scheduled_def dispatch_pending_def
      timer_defs)

lemma scheduled_pending:
  "bootstrap s = Some bs \<Longrightarrow> dispatch_pending (scheduled s)"
  by (simp add: scheduled_def dispatch_pending_def timer_defs)

lemma scheduled_target:
  "listener_target (scheduled s) = listener_target s"
  by (simp add: scheduled_def listener_target_def split: option.splits)

lemma deferred_events_coalesce:
  assumes "bootstrap s = Some bs" and "callback (listener bs) = Some FN_async_step_callback"
  shows "run (map (OP_event CLCONFIG_EVENT_GOT_NEW_CONFIG) (info # infos)) s = Inr (scheduled s)"
proof -
  have "listener_target s = Some FN_async_step_callback"
    using assms by (simp add: listener_target_def)
  then have "listener_target (scheduled s) = Some FN_async_step_callback"
    by (simp only: scheduled_target)
  then show ?thesis
    using assms
    by (simp add: deferred_event_schedules deferred_events_dropped scheduled_pending)
qed

lemma config_callback_disarms:
  "config_callback s CLCONFIG_EVENT_GOT_NEW_CONFIG info = Inr s' \<Longrightarrow>
   \<not> dispatch_pending s' \<and> timer_fire s' = Inr s'"
  by (auto simp add: config_callback_def Let_def dispatch_pending_def timer_fire_def
      timer_defs owner_defs split: option.splits if_splits sum.splits)

lemma dispatch_fires:
  "dispatch_pending s \<Longrightarrow>
   timer_fire s = config_callback (disarmed s) CLCONFIG_EVENT_GOT_NEW_CONFIG (cm_config (confmon s))"
  by (auto simp add: timer_fire_def dispatch_pending_def async_refresh_def timer_defs
      lcb_confmon_get_config_def disarmed_def split: option.splits)

lemma monitor_change_pending:
  "dispatch_pending (monitor_change cfg err r rest st s) = dispatch_pending s"
  by (simp add: monitor_change_def dispatch_pending_def)

lemma monitor_change_config:
  "cm_config (confmon (monitor_change cfg err r rest st s)) = cfg"
  by (simp add: monitor_change_def)

text \<open>
  Claim C3. A session whose listener is on the deferred target receives N \<open>\<ge>\<close> 1 new-config
  events: together they leave exactly the state one scheduling leaves (the timer armed
  with the deferred dispatch), and when a dispatch is pending already they change nothing,
  so all but the first are dropped. When the timer then fires, after the monitor has
  changed its best config to \<open>cfg\<close>, the dispatch runs \<open>config_callback\<close> once with a
  new-config event carrying \<open>cfg\<close>, whatever the events carried; afterwards no dispatch is
  pending and the timer firing again does nothing.
\<close>

theorem coalescing:
  "bootstrap s = Some bs \<Longrightarrow> callback (listener bs) = Some FN_async_step_callback \<Longrightarrow>
   run (map (OP_event CLCONFIG_EVENT_GOT_NEW_CONFIG) (info # infos)) s = Inr (scheduled s) \<and>
   dispatch_pending (scheduled s) \<and>
   (dispatch_pending s \<longrightarrow>
      run (map (OP_event CLCONFIG_EVENT_GOT_NEW_CONFIG) (info # infos)) s = Inr s) \<and>
   run (map (OP_event CLCONFIG_EVENT_GOT_NEW_CONFIG) (info # infos)
        @ [OP_monitor cfg err r rest st, OP_timer_fire]) s =
     config_callback (disarmed (monitor_change cfg err r rest st (scheduled s)))
       CLCONFIG_EVENT_GOT_NEW_CONFIG cfg \<and>
   (run (map (OP_event CLCONFIG_EVENT_GOT_NEW_CONFIG) (info # infos)
         @ [OP_monitor cfg err r rest st, OP_timer_fire]) s = Inr s2 \<longrightarrow>
      \<not> dispatch_pending s2 \<and> run [OP_timer_fire] s2 = Inr s2)"
proof -
  assume bs: "bootstrap s = Some bs" and cb: "callback (listener bs) = Some FN_async_step_callback"
  have events: "run (map (OP_event CLCONFIG_EVENT_GOT_NEW_CONFIG) (info # infos)) s =
      Inr (scheduled s)"
    using bs cb by (rule deferred_events_coalesce)
  have pending: "dispatch_pending (scheduled s)"
    using bs by (rule scheduled_pending)
  have dropped: "dispatch_pending s \<Longrightarrow> scheduled s = s"
    by (simp add: scheduled_def split: option.splits)
  have fire: "run (map (OP_event CLCONFIG_EVENT_GOT_NEW_CONFIG) (info # infos)
        @ [OP_monitor cfg err r rest st, OP_timer_fire]) s =
     config_callback (disarmed (monitor_change cfg err r rest st (scheduled s)))
       CLCONFIG_EVENT_GOT_NEW_CONFIG cfg"
  proof -
    have "run (map (OP_event CLCONFIG_EVENT_GOT_NEW_CONFIG) (info # infos)
        @ [OP_monitor cfg err r rest st, OP_timer_fire]) s =
      timer_fire (monitor_change cfg err r rest st (scheduled s))"
      using run_snoc [of "map (OP_event CLCONFIG_EVENT_GOT_NEW_CONFIG) (info # infos)
          @ [OP_monitor cfg err r rest st]" OP_timer_fire s]
        run_snoc [of "map (OP_event CLCONFIG_EVENT_GOT_NEW_CONFIG) (info # infos)"
          "OP_monitor cfg err r rest st" s]
      by (simp add: events del: run.simps list.map)
    also have "\<dots> = config_callback (disarmed (monitor_change cfg err r rest st (scheduled s)))
       CLCONFIG_EVENT_GOT_NEW_CONFIG cfg"
      using dispatch_fires [of "monitor_change cfg err r rest st (scheduled s)"] pending
      by (simp add: monitor_change_pending monitor_change_config)
    finally show ?thesis .
  qed
  have once: "\<not> dispatch_pending s2 \<and> run [OP_timer_fire] s2 = Inr s2"
    if "run (map (OP_event CLCONFIG_EVENT_GOT_NEW_CONFIG) (info # infos)
         @ [OP_monitor cfg err r rest st, OP_timer_fire]) s = Inr s2"
  proof -
    from that have "config_callback (disarmed (monitor_change cfg err r rest st (scheduled s)))
        CLCONFIG_EVENT_GOT_NEW_CONFIG cfg = Inr s2"
      by (simp only: fire)
    then have "\<not> dispatch_pending s2 \<and> timer_fire s2 = Inr s2"
      by (rule config_callback_disarms)
    then show ?thesis by simp
  qed
  show ?thesis
    using events pending dropped fire once by simp
qed

theorem coalescing_witness:
  "bootstrap session_instance = Some idle_session \<and>
   callback (listener idle_session) = Some FN_async_step_callback \<and>
   run (map (OP_event CLCONFIG_EVENT_GOT_NEW_CONFIG) [Some some_config, None, Some some_config])
       session_instance = Inr (scheduled session_instance) \<and>
   dispatch_pending (scheduled session_instance) \<and>
   dispatch_pending (scheduled (scheduled session_instance)) \<and>
   run (map (OP_event CLCONFIG_EVENT_GOT_NEW_CONFIG) [Some some_config, None])
       (scheduled session_instance) = Inr (scheduled session_instance) \<and>
   (\<exists>s2. run (map (OP_event CLCONFIG_EVENT_GOT_NEW_CONFIG) [Some some_config, None, Some some_config]
             @ [OP_monitor (Some other_config) LCB_SUCCESS False False LCB_SUCCESS, OP_timer_fire])
            session_instance = Inr s2 \<and>
         cur_configinfo s2 = Some other_config \<and> completions s2 = [LCB_SUCCESS] \<and>
         \<not> dispatch_pending s2 \<and> run [OP_timer_fire] s2 = Inr s2)"
proof -
  have h: "bootstrap session_instance = Some idle_session"
    by (simp add: session_instance_def)
  have c: "callback (listener idle_session) = Some FN_async_step_callback"
    by (simp add: idle_session_def)
  have sch: "scheduled session_instance =
      session_instance\<lparr>bootstrap := Some (idle_session\<lparr>tm :=
         \<lparr>armed = True, target = TGT_async_refresh, usec = 0\<rparr>\<rparr>)\<rparr>"
    by (simp add: scheduled_def dispatch_pending_def timer_defs session_instance_def
        idle_session_def)
  have h': "bootstrap (scheduled session_instance) =
      Some (idle_session\<lparr>tm := \<lparr>armed = True, target = TGT_async_refresh, usec = 0\<rparr>\<rparr>)"
    by (simp add: sch)
  have c': "callback (listener (idle_session\<lparr>tm :=
      \<lparr>armed = True, target = TGT_async_refresh, usec = 0\<rparr>\<rparr>)) = Some FN_async_step_callback"
    by (simp add: idle_session_def)
  note T = coalescing [OF h c, of "Some some_config" "[None, Some some_config]"
      "Some other_config" LCB_SUCCESS False False LCB_SUCCESS]
  note T' = coalescing [OF h' c', of "Some some_config" "[None]"]
  have p: "dispatch_pending (scheduled session_instance)"
    using T by blast
  have result: "config_callback
      (disarmed (monitor_change (Some other_config) LCB_SUCCESS False False LCB_SUCCESS
         (scheduled session_instance)))
      CLCONFIG_EVENT_GOT_NEW_CONFIG (Some other_config) =
    Inr (session_instance\<lparr>
      bootstrap := Some (idle_session\<lparr>tm := \<lparr>armed = False, target = TGT_async_refresh, usec = 0\<rparr>,
                                      bootstrapped := True\<rparr>),
      confmon := fresh_monitor\<lparr>cm_config := Some other_config\<rparr>,
      cur_configinfo := Some other_config,
      pendops := - 1,
      calls := [CB_bootstrap LCB_SUCCESS, Maybe_breakout]\<rparr>)"
    unfolding sch
    by (simp add: disarmed_def monitor_change_def config_callback_def Let_def
        reverting_to_http_def timer_defs owner_defs example_defs)
  have obs: "completions (session_instance\<lparr>
      bootstrap := Some (idle_session\<lparr>tm := \<lparr>armed = False, target = TGT_async_refresh, usec = 0\<rparr>,
                                      bootstrapped := True\<rparr>),
      confmon := fresh_monitor\<lparr>cm_config := Some other_config\<rparr>,
      cur_configinfo := Some other_config,
      pendops := - 1,
      calls := [CB_bootstrap LCB_SUCCESS, Maybe_breakout]\<rparr>) = [LCB_SUCCESS]"
    by (simp add: completions_def List.map_filter_def)
  have e1: "run (map (OP_event CLCONFIG_EVENT_GOT_NEW_CONFIG)
       [Some some_config, None, Some some_config]) session_instance =
      Inr (scheduled session_instance)"
    using T by blast
  have p': "dispatch_pending (scheduled (scheduled session_instance))"
    using T' by blast
  have e2: "run (map (OP_event CLCONFIG_EVENT_GOT_NEW_CONFIG) [Some some_config, None])
       (scheduled session_instance) = Inr (scheduled session_instance)"
    using T' p by blast
  have e3: "run (map (OP_event CLCONFIG_EVENT_GOT_NEW_CONFIG)
         [Some some_config, None, Some some_config]
       @ [OP_monitor (Some other_config) LCB_SUCCESS False False LCB_SUCCESS, OP_timer_fire])
      session_instance =
    Inr (session_instance\<lparr>
      bootstrap := Some (idle_session\<lparr>tm := \<lparr>armed = False, target = TGT_async_refresh, usec = 0\<rparr>,
                                      bootstrapped := True\<rparr>),
      confmon := fresh_monitor\<lparr>cm_config := Some other_config\<rparr>,
      cur_configinfo := Some other_config,
      pendops := - 1,
      calls := [CB_bootstrap LCB_SUCCESS, Maybe_breakout]\<rparr>)"
    using T result by (simp only:)
  have e4: "\<not> dispatch_pending (session_instance\<lparr>
      bootstrap := Some (idle_session\<lparr>tm := \<lparr>armed = False, target = TGT_async_refresh, usec = 0\<rparr>,
                                      bootstrapped := True\<rparr>),
      confmon := fresh_monitor\<lparr>cm_config := Some other_config\<rparr>,
      cur_configinfo := Some other_config,
      pendops := - 1,
      calls := [CB_bootstrap LCB_SUCCESS, Maybe_breakout]\<rparr>) \<and>
    run [OP_timer_fire] (session_instance\<lparr>
      bootstrap := Some (idle_session\<lparr>tm := \<lparr>armed = False, target = TGT_async_refresh, usec = 0\<rparr>,
                                      bootstrapped := True\<rparr>),
      confmon := fresh_monitor\<lparr>cm_config := Some other_config\<rparr>,
      cur_configinfo := Some other_config,
      pendops := - 1,
      calls := [CB_bootstrap LCB_SUCCESS, Maybe_breakout]\<rparr>) =
    Inr (session_instance\<lparr>
      bootstrap := Some (idle_session\<lparr>tm := \<lparr>armed = False, target = TGT_async_refresh, usec = 0\<rparr>,
                                      bootstrapped := True\<rparr>),
      confmon := fresh_monitor\<lparr>cm_config := Some other_config\<rparr>,
      cur_configinfo := Some other_config,
      pendops := - 1,
      calls := [CB_bootstrap LCB_SUCCESS, Maybe_breakout]\<rparr>)"
    using T e3 by blast
  have cfg: "cur_configinfo (session_instance\<lparr>
      bootstrap := Some (idle_session\<lparr>tm := \<lparr>armed = False, target = TGT_async_refresh, usec = 0\<rparr>,
                                      bootstrapped := True\<rparr>),
      confmon := fresh_monitor\<lparr>cm_config := Some other_config\<rparr>,
      cur_configinfo := Some other_config,
      pendops := - 1,
      calls := [CB_bootstrap LCB_SUCCESS, Maybe_breakout]\<rparr>) = Some other_config"
    by simp
  show ?thesis
    using h c e1 p p' e2 e3 e4 cfg obs by blast
qed

section \<open>What each function does to the listener target, the first-success flag and the providers\<close>

text \<open>Three observations are followed through every function of the file: the listener
  target, whether the session has had its first success, and how often the provider
  adjustment ran.\<close>

lemma initial_bootstrap_error_obs:
  "initial_bootstrap_error i err errinfo = Inr i' \<Longrightarrow>
   listener_target i' = listener_target i \<and>
   reached_first_success i' = reached_first_success i \<and>
   adjustments i' = adjustments i"
proof (cases "bootstrap i")
  case None
  assume "initial_bootstrap_error i err errinfo = Inr i'"
  with None show ?thesis
    by (auto simp add: initial_bootstrap_error_def Let_def owner_defs split: if_splits)
next
  case (Some bs)
  assume "initial_bootstrap_error i err errinfo = Inr i'"
  with Some show ?thesis
    by (auto simp add: initial_bootstrap_error_session obs_defs)
qed

lemma config_callback_new_obs:
  "config_callback i CLCONFIG_EVENT_GOT_NEW_CONFIG info = Inr i' \<Longrightarrow>
   listener_target i' = Some FN_async_step_callback \<and>
   reached_first_success i' \<and>
   adjustments i \<le> adjustments i' \<and>
   adjustments i' \<le> adjustments i + 1 \<and>
   (reached_first_success i \<longrightarrow> adjustments i' = adjustments i)"
  by (auto simp add: config_callback_def Let_def obs_defs reverting_to_http_def
      timer_defs owner_defs lcb_confmon_set_provider_active_def
      split: option.splits if_splits sum.splits)

lemma config_callback_other_obs:
  "event \<noteq> CLCONFIG_EVENT_GOT_NEW_CONFIG \<Longrightarrow> config_callback i event info = Inr i' \<Longrightarrow>
   listener_target i' = listener_target i \<and>
   reached_first_success i' = reached_first_success i \<and>
   adjustments i' = adjustments i"
  using initial_bootstrap_error_obs [of i LCB_ERROR "''No more bootstrap providers remain''" i']
  by (auto simp add: config_callback_def split: option.splits if_splits)

lemma async_step_callback_obs:
  "async_step_callback i event info = Inr i' \<Longrightarrow>
   listener_target i' = listener_target i \<and>
   reached_first_success i' = reached_first_success i \<and>
   adjustments i' = adjustments i"
  by (auto simp add: async_step_callback_def obs_defs split: option.splits if_splits)

lemma bootstrap_common_obs:
  "reached_first_success (snd (bootstrap_common i initial e)) = reached_first_success i \<and>
   adjustments (snd (bootstrap_common i initial e)) = adjustments i \<and>
   (\<not> initial \<longrightarrow> is_synchronous (snd (bootstrap_common i initial e)) \<longrightarrow> is_synchronous i)"
  by (auto simp add: bootstrap_common_def Let_def obs_defs is_synchronous_def new_bootstrap_st_def
      monitor_defs owner_defs split: option.splits prod.splits)

lemma lcb_bootstrap_initial_obs:
  "reached_first_success (snd (lcb_bootstrap_initial i e)) = reached_first_success i \<and>
   adjustments (snd (lcb_bootstrap_initial i e)) = adjustments i"
  using bootstrap_common_obs [of "i\<lparr>confmon := lcb_confmon_prepare (confmon i)\<rparr>" True e]
  by (simp add: lcb_bootstrap_initial_def obs_defs lcb_confmon_prepare_def)

lemma lcb_bootstrap_refresh_obs:
  "reached_first_success (snd (lcb_bootstrap_refresh i e)) = reached_first_success i \<and>
   adjustments (snd (lcb_bootstrap_refresh i e)) = adjustments i \<and>
   (is_synchronous (snd (lcb_bootstrap_refresh i e)) \<longrightarrow> is_synchronous i)"
  using bootstrap_common_obs [of i False e] by (simp add: lcb_bootstrap_refresh_def)

lemma lcb_bootstrap_errcount_incr_obs:
  "lcb_bootstrap_errcount_incr i now e = Inr i' \<Longrightarrow>
   reached_first_success i' = reached_first_success i \<and>
   adjustments i' = adjustments i \<and>
   (is_synchronous i' \<longrightarrow> is_synchronous i)"
proof (cases "bootstrap i")
  case None
  assume "lcb_bootstrap_errcount_incr i now e = Inr i'"
  with None show ?thesis by (simp add: lcb_bootstrap_errcount_incr_def)
next
  case (Some bs)
  assume r: "lcb_bootstrap_errcount_incr i now e = Inr i'"
  show ?thesis
  proof (cases "now < last_refresh bs + LCB_US2NS (weird_things_delay (settings i))
         \<and> ucast (errcounter bs + 1) < weird_things_threshold (settings i)")
    case True
    with r Some have "i' = i\<lparr>bootstrap := Some (bs\<lparr>errcounter := errcounter bs + 1\<rparr>)\<rparr>"
      by (simp add: lcb_bootstrap_errcount_incr_def Let_def)
    with Some show ?thesis
      by (simp add: obs_defs is_synchronous_def)
  next
    case False
    with r Some have "i' = snd (lcb_bootstrap_refresh (i\<lparr>bootstrap := Some (bs\<lparr>errcounter := 0\<rparr>)\<rparr>) e)"
      by (auto simp add: lcb_bootstrap_errcount_incr_def Let_def)
    with Some show ?thesis
      using lcb_bootstrap_refresh_obs [of "i\<lparr>bootstrap := Some (bs\<lparr>errcounter := 0\<rparr>)\<rparr>" e]
      by (simp add: obs_defs is_synchronous_def)
  qed
qed

lemma lcb_bootstrap_destroy_obs:
  "listener_target (lcb_bootstrap_destroy i) = None \<and>
   adjustments (lcb_bootstrap_destroy i) = adjustments i"
  by (simp add: lcb_bootstrap_destroy_def obs_defs lcb_confmon_remove_listener_def
      split: option.splits)

lemma deliver_event_obs:
  "deliver_event i event info = Inr i' \<Longrightarrow>
   (event = CLCONFIG_EVENT_GOT_NEW_CONFIG \<and> is_synchronous i \<longrightarrow>
      listener_target i' = Some FN_async_step_callback \<and> reached_first_success i' \<and>
      adjustments i \<le> adjustments i' \<and> adjustments i' \<le> adjustments i + 1 \<and>
      (reached_first_success i \<longrightarrow> adjustments i' = adjustments i)) \<and>
   (\<not> (event = CLCONFIG_EVENT_GOT_NEW_CONFIG \<and> is_synchronous i) \<longrightarrow>
      listener_target i' = listener_target i \<and>
      reached_first_success i' = reached_first_success i \<and>
      adjustments i' = adjustments i)"
proof (cases "bootstrap i")
  case None
  assume "deliver_event i event info = Inr i'"
  with None show ?thesis
    by (simp add: deliver_event_def is_synchronous_def listener_target_def)
next
  case (Some bs)
  assume r: "deliver_event i event info = Inr i'"
  show ?thesis
  proof (cases "callback (listener bs)")
    case None
    with r Some show ?thesis by (simp add: deliver_event_def)
  next
    case (Some f)
    show ?thesis
    proof (cases f)
      case FN_config_callback
      with r Some \<open>bootstrap i = Some bs\<close>
      have c: "config_callback i event info = Inr i'" and s: "is_synchronous i"
        by (simp_all add: deliver_event_def is_synchronous_def listener_target_def)
      show ?thesis
        using c s config_callback_new_obs [of i info i'] config_callback_other_obs [of event i info i']
        by auto
    next
      case FN_async_step_callback
      with r Some \<open>bootstrap i = Some bs\<close>
      have c: "async_step_callback i event info = Inr i'" and s: "\<not> is_synchronous i"
        by (simp_all add: deliver_event_def is_synchronous_def listener_target_def)
      show ?thesis
        using c s async_step_callback_obs [of i event info i'] by auto
    qed
  qed
qed

lemma disarmed_obs:
  "listener_target (disarmed i) = listener_target i \<and>
   reached_first_success (disarmed i) = reached_first_success i \<and>
   adjustments (disarmed i) = adjustments i"
  by (simp add: disarmed_def obs_defs split: option.splits)

lemma timer_fn_other: "(t \<noteq> TGT_async_refresh) = (t = TGT_initial_timeout)"
  by (cases t) simp_all

lemma timer_fire_cases:
  "timer_fire i =
     (if dispatch_pending i
      then config_callback (disarmed i) CLCONFIG_EVENT_GOT_NEW_CONFIG (cm_config (confmon i))
      else if bootstrap i \<noteq> None \<and> armed (tm (the (bootstrap i)))
      then initial_bootstrap_error (disarmed i) LCB_ETIMEDOUT ''Failed to bootstrap in time''
      else Inr i)"
  by (auto simp add: timer_fire_def dispatch_pending_def disarmed_def timer_defs
      initial_timeout_def async_refresh_def lcb_confmon_get_config_def timer_fn_other
      split: option.splits)

lemma timer_fire_obs:
  "timer_fire i = Inr i' \<Longrightarrow>
   (dispatch_pending i \<longrightarrow>
      listener_target i' = Some FN_async_step_callback \<and> reached_first_success i' \<and>
      adjustments i \<le> adjustments i' \<and> adjustments i' \<le> adjustments i + 1 \<and>
      (reached_first_success i \<longrightarrow> adjustments i' = adjustments i)) \<and>
   (\<not> dispatch_pending i \<longrightarrow>
      listener_target i' = listener_target i \<and>
      reached_first_success i' = reached_first_success i \<and>
      adjustments i' = adjustments i)"
  using config_callback_new_obs [of "disarmed i" "cm_config (confmon i)" i']
    initial_bootstrap_error_obs [of "disarmed i" LCB_ETIMEDOUT "''Failed to bootstrap in time''" i']
    disarmed_obs [of i]
  by (auto simp add: timer_fire_cases split: if_splits)

lemma monitor_change_obs:
  "listener_target (monitor_change cfg err r rest st i) = listener_target i \<and>
   reached_first_success (monitor_change cfg err r rest st i) = reached_first_success i \<and>
   adjustments (monitor_change cfg err r rest st i) = adjustments i"
  by (simp add: monitor_change_def obs_defs)

section \<open>The same over single operations and runs\<close>

lemma step_processes:
  "step x s = Inr s' \<Longrightarrow> processes_new_config x s \<Longrightarrow>
   listener_target s' = Some FN_async_step_callback"
proof (cases x)
  case (OP_event event info)
  assume "step x s = Inr s'" "processes_new_config x s"
  with OP_event show ?thesis
    using deliver_event_obs [of s event info s'] by simp
next
  case OP_timer_fire
  assume "step x s = Inr s'" "processes_new_config x s"
  with OP_timer_fire show ?thesis
    using timer_fire_obs [of s s'] by simp
qed simp_all

lemma step_adjust:
  "step x s = Inr s' \<Longrightarrow>
   adjustments s \<le> adjustments s' \<and> adjustments s' \<le> adjustments s + 1 \<and>
   (reached_first_success s \<longrightarrow> adjustments s' = adjustments s)"
proof (cases x)
  case (OP_bootstrap_initial e)
  assume "step x s = Inr s'"
  with OP_bootstrap_initial show ?thesis
    using lcb_bootstrap_initial_obs [of s e] by auto
next
  case (OP_bootstrap_refresh e)
  assume "step x s = Inr s'"
  with OP_bootstrap_refresh show ?thesis
    using lcb_bootstrap_refresh_obs [of s e] by auto
next
  case (OP_errcount_incr now e)
  assume "step x s = Inr s'"
  with OP_errcount_incr show ?thesis
    using lcb_bootstrap_errcount_incr_obs [of s now e s'] by simp
next
  case OP_destroy
  assume "step x s = Inr s'"
  with OP_destroy show ?thesis
    using lcb_bootstrap_destroy_obs [of s] by auto
next
  case (OP_event event info)
  assume "step x s = Inr s'"
  with OP_event show ?thesis
    using deliver_event_obs [of s event info s']
    by (cases "event = CLCONFIG_EVENT_GOT_NEW_CONFIG \<and> is_synchronous s") simp_all
next
  case OP_timer_fire
  assume "step x s = Inr s'"
  with OP_timer_fire show ?thesis
    using timer_fire_obs [of s s'] by (cases "dispatch_pending s") simp_all
next
  case (OP_monitor cfg err r rest st)
  assume "step x s = Inr s'"
  with OP_monitor show ?thesis
    using monitor_change_obs [of cfg err r rest st s] by auto
qed

lemma step_first_success:
  "step x s = Inr s' \<Longrightarrow> x \<noteq> OP_destroy \<Longrightarrow> reached_first_success s \<Longrightarrow>
   reached_first_success s'"
proof (cases x)
  case (OP_bootstrap_initial e)
  assume "step x s = Inr s'" "reached_first_success s"
  with OP_bootstrap_initial show ?thesis
    using lcb_bootstrap_initial_obs [of s e] by auto
next
  case (OP_bootstrap_refresh e)
  assume "step x s = Inr s'" "reached_first_success s"
  with OP_bootstrap_refresh show ?thesis
    using lcb_bootstrap_refresh_obs [of s e] by auto
next
  case (OP_errcount_incr now e)
  assume "step x s = Inr s'" "reached_first_success s"
  with OP_errcount_incr show ?thesis
    using lcb_bootstrap_errcount_incr_obs [of s now e s'] by simp
next
  case OP_destroy
  assume "x \<noteq> OP_destroy"
  with OP_destroy show ?thesis by simp
next
  case (OP_event event info)
  assume "step x s = Inr s'" "reached_first_success s"
  with OP_event show ?thesis
    using deliver_event_obs [of s event info s']
    by (cases "event = CLCONFIG_EVENT_GOT_NEW_CONFIG \<and> is_synchronous s") simp_all
next
  case OP_timer_fire
  assume "step x s = Inr s'" "reached_first_success s"
  with OP_timer_fire show ?thesis
    using timer_fire_obs [of s s'] by (cases "dispatch_pending s") simp_all
next
  case (OP_monitor cfg err r rest st)
  assume "step x s = Inr s'" "reached_first_success s"
  with OP_monitor show ?thesis
    using monitor_change_obs [of cfg err r rest st s] by auto
qed

lemma step_adjust_once:
  "step x s = Inr s' \<Longrightarrow> x \<noteq> OP_destroy \<Longrightarrow> adjustments s' \<noteq> adjustments s \<Longrightarrow>
   reached_first_success s'"
proof (cases x)
  case (OP_bootstrap_initial e)
  assume "step x s = Inr s'" "adjustments s' \<noteq> adjustments s"
  with OP_bootstrap_initial show ?thesis
    using lcb_bootstrap_initial_obs [of s e] by auto
next
  case (OP_bootstrap_refresh e)
  assume "step x s = Inr s'" "adjustments s' \<noteq> adjustments s"
  with OP_bootstrap_refresh show ?thesis
    using lcb_bootstrap_refresh_obs [of s e] by auto
next
  case (OP_errcount_incr now e)
  assume "step x s = Inr s'" "adjustments s' \<noteq> adjustments s"
  with OP_errcount_incr show ?thesis
    using lcb_bootstrap_errcount_incr_obs [of s now e s'] by simp
next
  case OP_destroy
  assume "x \<noteq> OP_destroy"
  with OP_destroy show ?thesis by simp
next
  case (OP_event event info)
  assume "step x s = Inr s'" "adjustments s' \<noteq> adjustments s"
  with OP_event show ?thesis
    using deliver_event_obs [of s event info s']
    by (cases "event = CLCONFIG_EVENT_GOT_NEW_CONFIG \<and> is_synchronous s") simp_all
next
  case OP_timer_fire
  assume "step x s = Inr s'" "adjustments s' \<noteq> adjustments s"
  with OP_timer_fire show ?thesis
    using timer_fire_obs [of s s'] by (cases "dispatch_pending s") simp_all
next
  case (OP_monitor cfg err r rest st)
  assume "step x s = Inr s'" "adjustments s' \<noteq> adjustments s"
  with OP_monitor show ?thesis
    using monitor_change_obs [of cfg err r rest st s] by auto
qed

lemma step_to_synchronous:
  "step x s = Inr s' \<Longrightarrow> \<not> is_synchronous s \<Longrightarrow> is_synchronous s' \<Longrightarrow> is_initial x"
proof (cases x)
  case (OP_bootstrap_refresh e)
  assume "step x s = Inr s'" "\<not> is_synchronous s" "is_synchronous s'"
  with OP_bootstrap_refresh show ?thesis
    using lcb_bootstrap_refresh_obs [of s e] by auto
next
  case (OP_errcount_incr now e)
  assume "step x s = Inr s'" "\<not> is_synchronous s" "is_synchronous s'"
  with OP_errcount_incr show ?thesis
    using lcb_bootstrap_errcount_incr_obs [of s now e s'] by simp
next
  case OP_destroy
  assume "step x s = Inr s'" "\<not> is_synchronous s" "is_synchronous s'"
  with OP_destroy show ?thesis
    using lcb_bootstrap_destroy_obs [of s] by (auto simp add: is_synchronous_def)
next
  case (OP_event event info)
  assume "step x s = Inr s'" "\<not> is_synchronous s" "is_synchronous s'"
  with OP_event show ?thesis
    using deliver_event_obs [of s event info s'] by (simp add: is_synchronous_def)
next
  case OP_timer_fire
  assume "step x s = Inr s'" "\<not> is_synchronous s" "is_synchronous s'"
  with OP_timer_fire show ?thesis
    using timer_fire_obs [of s s'] by (cases "dispatch_pending s") (simp_all add: is_synchronous_def)
next
  case (OP_monitor cfg err r rest st)
  assume "step x s = Inr s'" "\<not> is_synchronous s" "is_synchronous s'"
  with OP_monitor show ?thesis
    using monitor_change_obs [of cfg err r rest st s] by (auto simp add: is_synchronous_def)
qed simp

lemma run_first_success:
  "run xs s = Inr s' \<Longrightarrow> OP_destroy \<notin> set xs \<Longrightarrow> reached_first_success s \<Longrightarrow>
   reached_first_success s' \<and> adjustments s' = adjustments s"
proof (induction xs arbitrary: s)
  case Nil
  then show ?case by simp
next
  case (Cons x xs)
  from Cons.prems(1) obtain s1 where s1: "step x s = Inr s1" and r: "run xs s1 = Inr s'"
    by (auto split: sum.splits)
  from Cons.prems(2) have x: "x \<noteq> OP_destroy" and xs: "OP_destroy \<notin> set xs"
    by auto
  have "reached_first_success s1"
    using s1 x Cons.prems(3) by (rule step_first_success)
  moreover have "adjustments s1 = adjustments s"
    using step_adjust [OF s1] Cons.prems(3) by simp
  ultimately show ?case
    using Cons.IH [OF r xs] by simp
qed

lemma run_adjust_once:
  "run xs s = Inr s' \<Longrightarrow> OP_destroy \<notin> set xs \<Longrightarrow> adjustments s' \<le> adjustments s + 1"
proof (induction xs arbitrary: s)
  case Nil
  then show ?case by simp
next
  case (Cons x xs)
  from Cons.prems(1) obtain s1 where s1: "step x s = Inr s1" and r: "run xs s1 = Inr s'"
    by (auto split: sum.splits)
  from Cons.prems(2) have x: "x \<noteq> OP_destroy" and xs: "OP_destroy \<notin> set xs"
    by auto
  show ?case
  proof (cases "adjustments s1 = adjustments s")
    case True
    then show ?thesis
      using Cons.IH [OF r xs] by simp
  next
    case False
    with s1 x have "reached_first_success s1"
      by (rule step_adjust_once)
    then have "adjustments s' = adjustments s1"
      using run_first_success [OF r xs] by simp
    then show ?thesis
      using step_adjust [OF s1] by simp
  qed
qed

lemma run_stays_deferred:
  "run xs s = Inr s' \<Longrightarrow> \<not> list_ex is_initial xs \<Longrightarrow> \<not> is_synchronous s \<Longrightarrow>
   \<not> is_synchronous s'"
proof (induction xs arbitrary: s)
  case Nil
  then show ?case by simp
next
  case (Cons x xs)
  from Cons.prems(1) obtain s1 where s1: "step x s = Inr s1" and r: "run xs s1 = Inr s'"
    by (auto split: sum.splits)
  from Cons.prems(2) have x: "\<not> is_initial x" and xs: "\<not> list_ex is_initial xs"
    by auto
  have "\<not> is_synchronous s1"
    using step_to_synchronous [OF s1 Cons.prems(3)] x by blast
  then show ?case
    using Cons.IH [OF r xs] by simp
qed

lemma run_synchronous_window:
  "run xs s = Inr s' \<Longrightarrow> is_synchronous s' \<Longrightarrow>
   (is_synchronous s \<and> quiet xs s) \<or>
   (\<exists>pre e post s1. xs = pre @ OP_bootstrap_initial e # post \<and>
      run (pre @ [OP_bootstrap_initial e]) s = Inr s1 \<and> quiet post s1)"
proof (induction xs arbitrary: s)
  case Nil
  then show ?case by simp
next
  case (Cons x xs)
  from Cons.prems(1) obtain t where t: "step x s = Inr t" and r: "run xs t = Inr s'"
    by (auto split: sum.splits)
  from Cons.IH [OF r Cons.prems(2)]
  consider (window) "is_synchronous t" "quiet xs t"
    | (later) pre e post s1 where "xs = pre @ OP_bootstrap_initial e # post"
        "run (pre @ [OP_bootstrap_initial e]) t = Inr s1" "quiet post s1"
    by blast
  then show ?case
  proof cases
    case window
    have np: "\<not> processes_new_config x s"
      using step_processes [OF t] window(1) by (auto simp add: is_synchronous_def)
    show ?thesis
    proof (cases "is_synchronous s")
      case True
      with np t window show ?thesis by simp
    next
      case False
      then have "is_initial x"
        using step_to_synchronous [OF t] window(1) by blast
      then obtain e where e: "x = OP_bootstrap_initial e"
        by (cases x) simp_all
      have "x # xs = [] @ OP_bootstrap_initial e # xs \<and>
          run ([] @ [OP_bootstrap_initial e]) s = Inr t \<and> quiet xs t"
        using e t window(2) by simp
      then show ?thesis by blast
    qed
  next
    case later
    have "x # xs = (x # pre) @ OP_bootstrap_initial e # post \<and>
        run ((x # pre) @ [OP_bootstrap_initial e]) s = Inr s1 \<and> quiet post s1"
      using later t by simp
    then show ?thesis by blast
  qed
qed

section \<open>The first success\<close>

lemma config_callback_first_success:
  "bootstrap s = Some bs \<Longrightarrow> \<not> bootstrapped bs \<Longrightarrow>
   \<exists>s'. config_callback s CLCONFIG_EVENT_GOT_NEW_CONFIG (Some ci) = Inr s' \<and>
     reached_first_success s' \<and>
     pendops s' = pendops s - 1 \<and>
     calls s' = calls s @ [CB_bootstrap LCB_SUCCESS, Maybe_breakout] \<and>
     cm_calls (confmon s') = cm_calls (confmon s) @
       (if inst_type s = LCB_TYPE_BUCKET \<and> dist_type s = LCBVB_DIST_KETAMA
           \<and> origin ci \<noteq> LCB_CLCONFIG_MCRAW
        then [CM_set_provider_active LCB_CLCONFIG_HTTP True,
              CM_set_provider_active LCB_CLCONFIG_CCCP False]
        else [])"
  by (simp add: config_callback_def Let_def reverting_to_http_def reached_first_success_def
      timer_defs owner_defs lcb_confmon_set_provider_active_def)

text \<open>
  Claim C8. A new-config event, carrying a config \<open>ci\<close>, processed by \<open>config_callback\<close>
  while \<open>bootstrapped\<close> is unset: the flag is set, the pending counter is decremented once,
  the completion callback is invoked with \<open>LCB_SUCCESS\<close>, and the monitor is told to enable
  the HTTP provider and disable the cluster-push (CCCP) provider exactly when the owner is
  a bucket instance with ketama distribution and the config did not come from the
  raw-memcached provider. Over any run that does not destroy the session, the flag once
  set stays set with no further provider adjustment, and the adjustment runs at most once.
\<close>

theorem first_success:
  "(bootstrap s = Some bs \<and> \<not> bootstrapped bs \<longrightarrow>
      (\<exists>s'. config_callback s CLCONFIG_EVENT_GOT_NEW_CONFIG (Some ci) = Inr s' \<and>
         reached_first_success s' \<and>
         pendops s' = pendops s - 1 \<and>
         calls s' = calls s @ [CB_bootstrap LCB_SUCCESS, Maybe_breakout] \<and>
         cm_calls (confmon s') = cm_calls (confmon s) @
           (if inst_type s = LCB_TYPE_BUCKET \<and> dist_type s = LCBVB_DIST_KETAMA
               \<and> origin ci \<noteq> LCB_CLCONFIG_MCRAW
            then [CM_set_provider_active LCB_CLCONFIG_HTTP True,
                  CM_set_provider_active LCB_CLCONFIG_CCCP False]
            else []))) \<and>
   (run xs t = Inr t' \<and> OP_destroy \<notin> set xs \<and> reached_first_success t \<longrightarrow>
      reached_first_success t' \<and> adjustments t' = adjustments t) \<and>
   (run xs t = Inr t' \<and> OP_destroy \<notin> set xs \<longrightarrow> adjustments t' \<le> adjustments t + 1)"
  using config_callback_first_success [of s bs ci] run_first_success [of xs t t']
    run_adjust_once [of xs t t']
  by blast

theorem first_success_witness:
  "bootstrap (ketama_instance\<lparr>bootstrap := Some idle_session\<rparr>) = Some idle_session \<and>
   \<not> bootstrapped idle_session \<and>
   (\<exists>s'. config_callback (ketama_instance\<lparr>bootstrap := Some idle_session\<rparr>)
            CLCONFIG_EVENT_GOT_NEW_CONFIG (Some some_config) = Inr s' \<and>
      reached_first_success s' \<and> pendops s' = - 1 \<and>
      calls s' = [CB_bootstrap LCB_SUCCESS, Maybe_breakout] \<and>
      cm_calls (confmon s') = [CM_set_provider_active LCB_CLCONFIG_HTTP True,
                               CM_set_provider_active LCB_CLCONFIG_CCCP False]) \<and>
   OP_destroy \<notin> set [OP_bootstrap_initial env0,
       OP_event CLCONFIG_EVENT_GOT_NEW_CONFIG (Some some_config),
       OP_event CLCONFIG_EVENT_GOT_NEW_CONFIG (Some other_config), OP_timer_fire] \<and>
   (\<exists>t'. run [OP_bootstrap_initial env0,
               OP_event CLCONFIG_EVENT_GOT_NEW_CONFIG (Some some_config),
               OP_event CLCONFIG_EVENT_GOT_NEW_CONFIG (Some other_config), OP_timer_fire]
              ketama_instance = Inr t' \<and>
      adjustments t' = 1 \<and> adjustments t' \<le> adjustments ketama_instance + 1) \<and>
   (\<exists>t t'. run [OP_bootstrap_initial env0,
                 OP_event CLCONFIG_EVENT_GOT_NEW_CONFIG (Some some_config)] ketama_instance = Inr t \<and>
      reached_first_success t \<and>
      run [OP_event CLCONFIG_EVENT_GOT_NEW_CONFIG (Some other_config), OP_timer_fire] t = Inr t' \<and>
      reached_first_success t' \<and> adjustments t' = adjustments t)"
proof -
  have h: "bootstrap (ketama_instance\<lparr>bootstrap := Some idle_session\<rparr>) = Some idle_session"
    by simp
  have b: "\<not> bootstrapped idle_session"
    by (simp add: idle_session_def)
  have k: "inst_type (ketama_instance\<lparr>bootstrap := Some idle_session\<rparr>) = LCB_TYPE_BUCKET"
      "dist_type (ketama_instance\<lparr>bootstrap := Some idle_session\<rparr>) = LCBVB_DIST_KETAMA"
      "origin some_config \<noteq> LCB_CLCONFIG_MCRAW"
      "pendops (ketama_instance\<lparr>bootstrap := Some idle_session\<rparr>) = 0"
      "calls (ketama_instance\<lparr>bootstrap := Some idle_session\<rparr>) = []"
      "cm_calls (confmon (ketama_instance\<lparr>bootstrap := Some idle_session\<rparr>)) = []"
    by (simp_all add: ketama_instance_def example_defs)
  have k0: "inst_type ketama_instance = LCB_TYPE_BUCKET"
      "dist_type ketama_instance = LCBVB_DIST_KETAMA"
      "pendops ketama_instance = 0" "calls ketama_instance = []"
      "cm_calls (confmon ketama_instance) = []"
    by (simp_all add: ketama_instance_def example_defs)
  have one: "\<exists>s'. config_callback (ketama_instance\<lparr>bootstrap := Some idle_session\<rparr>)
            CLCONFIG_EVENT_GOT_NEW_CONFIG (Some some_config) = Inr s' \<and>
      reached_first_success s' \<and> pendops s' = - 1 \<and>
      calls s' = [CB_bootstrap LCB_SUCCESS, Maybe_breakout] \<and>
      cm_calls (confmon s') = [CM_set_provider_active LCB_CLCONFIG_HTTP True,
                               CM_set_provider_active LCB_CLCONFIG_CCCP False]"
    using first_success [of "ketama_instance\<lparr>bootstrap := Some idle_session\<rparr>" idle_session
        some_config] h b
    by (simp add: k k0)
  have nd: "OP_destroy \<notin> set [OP_bootstrap_initial env0,
       OP_event CLCONFIG_EVENT_GOT_NEW_CONFIG (Some some_config),
       OP_event CLCONFIG_EVENT_GOT_NEW_CONFIG (Some other_config), OP_timer_fire]"
      "OP_destroy \<notin> set [OP_event CLCONFIG_EVENT_GOT_NEW_CONFIG (Some other_config), OP_timer_fire]"
    by simp_all
  have a0: "adjustments ketama_instance = 0"
    by (simp add: adjustments_def ketama_instance_def example_defs)
  have "\<exists>t. run [OP_bootstrap_initial env0,
                 OP_event CLCONFIG_EVENT_GOT_NEW_CONFIG (Some some_config)] ketama_instance = Inr t \<and>
      reached_first_success t \<and> adjustments t = 1 \<and>
      (\<exists>t'. run [OP_event CLCONFIG_EVENT_GOT_NEW_CONFIG (Some other_config), OP_timer_fire] t = Inr t')"
    by (simp add: machine_defs timer_defs monitor_defs owner_defs ketama_instance_def example_defs
        reached_first_success_def adjustments_def)
  then obtain t t' where t: "run [OP_bootstrap_initial env0,
                 OP_event CLCONFIG_EVENT_GOT_NEW_CONFIG (Some some_config)] ketama_instance = Inr t"
      and rt: "reached_first_success t" and at: "adjustments t = 1"
      and t': "run [OP_event CLCONFIG_EVENT_GOT_NEW_CONFIG (Some other_config), OP_timer_fire] t = Inr t'"
    by blast
  have keep: "reached_first_success t' \<and> adjustments t' = adjustments t"
    using first_success [of _ _ _
        "[OP_event CLCONFIG_EVENT_GOT_NEW_CONFIG (Some other_config), OP_timer_fire]" t t']
      t' nd(2) rt by blast
  have whole: "run [OP_bootstrap_initial env0,
               OP_event CLCONFIG_EVENT_GOT_NEW_CONFIG (Some some_config),
               OP_event CLCONFIG_EVENT_GOT_NEW_CONFIG (Some other_config), OP_timer_fire]
              ketama_instance = Inr t'"
    using run_append [of "[OP_bootstrap_initial env0,
                 OP_event CLCONFIG_EVENT_GOT_NEW_CONFIG (Some some_config)]"
        "[OP_event CLCONFIG_EVENT_GOT_NEW_CONFIG (Some other_config), OP_timer_fire]" ketama_instance]
      t t'
    by (simp del: run.simps)
  have bound: "adjustments t' \<le> adjustments ketama_instance + 1"
    using first_success [of _ _ _ "[OP_bootstrap_initial env0,
               OP_event CLCONFIG_EVENT_GOT_NEW_CONFIG (Some some_config),
               OP_event CLCONFIG_EVENT_GOT_NEW_CONFIG (Some other_config), OP_timer_fire]"
        ketama_instance t'] whole nd(1)
    by blast
  show ?thesis
    using h b one nd(1) whole keep at bound t rt t' by (metis (no_types, lifting))
qed

section \<open>The listener target\<close>

text \<open>
  Claim C4. Processing a new-config event in \<open>config_callback\<close> always leaves the listener
  on the deferred target, whatever it was before; so does every operation that makes
  \<open>config_callback\<close> process one. The only operation that turns a listener that is not
  synchronous into a synchronous one is an initial bootstrap, so without one every later
  event goes to the deferred target. Whenever the listener is synchronous after a run
  that started otherwise, the run contains an initial bootstrap after which no new-config
  event has been processed.
\<close>

theorem listener_target_discipline:
  "(config_callback s CLCONFIG_EVENT_GOT_NEW_CONFIG info = Inr s' \<longrightarrow>
      listener_target s' = Some FN_async_step_callback) \<and>
   (step x s = Inr s' \<and> processes_new_config x s \<longrightarrow>
      listener_target s' = Some FN_async_step_callback) \<and>
   (step x s = Inr s' \<and> \<not> is_synchronous s \<and> is_synchronous s' \<longrightarrow> is_initial x) \<and>
   (run xs s = Inr s' \<and> \<not> is_synchronous s \<and> \<not> list_ex is_initial xs \<longrightarrow>
      \<not> is_synchronous s') \<and>
   (run xs s = Inr s' \<and> \<not> is_synchronous s \<and> is_synchronous s' \<longrightarrow>
      (\<exists>pre e post s1. xs = pre @ OP_bootstrap_initial e # post \<and>
         run (pre @ [OP_bootstrap_initial e]) s = Inr s1 \<and> quiet post s1))"
  using config_callback_new_obs [of s info s'] step_processes [of x s s']
    step_to_synchronous [of x s s'] run_stays_deferred [of xs s s']
    run_synchronous_window [of xs s s']
  by blast

theorem listener_target_discipline_witness:
  "\<not> is_synchronous fresh_instance \<and>
   is_initial (OP_bootstrap_initial env0) \<and>
   \<not> list_ex is_initial [OP_bootstrap_refresh env0,
        OP_event CLCONFIG_EVENT_GOT_NEW_CONFIG (Some some_config), OP_timer_fire] \<and>
   (\<exists>s1 s2. step (OP_bootstrap_initial env0) fresh_instance = Inr s1 \<and> is_synchronous s1 \<and>
      config_callback s1 CLCONFIG_EVENT_GOT_NEW_CONFIG (Some some_config) = Inr s2 \<and>
      processes_new_config (OP_event CLCONFIG_EVENT_GOT_NEW_CONFIG (Some some_config)) s1 \<and>
      step (OP_event CLCONFIG_EVENT_GOT_NEW_CONFIG (Some some_config)) s1 = Inr s2 \<and>
      listener_target s2 = Some FN_async_step_callback) \<and>
   (\<exists>s'. run [OP_bootstrap_refresh env0,
               OP_event CLCONFIG_EVENT_GOT_NEW_CONFIG (Some some_config), OP_timer_fire]
              fresh_instance = Inr s' \<and> \<not> is_synchronous s') \<and>
   (\<exists>s'. run [OP_bootstrap_refresh env0, OP_bootstrap_initial env0,
               OP_event CLCONFIG_EVENT_PROVIDERS_CYCLED None] fresh_instance = Inr s' \<and>
      is_synchronous s' \<and>
      (\<exists>pre e post s1.
         [OP_bootstrap_refresh env0, OP_bootstrap_initial env0,
          OP_event CLCONFIG_EVENT_PROVIDERS_CYCLED None] = pre @ OP_bootstrap_initial e # post \<and>
         run (pre @ [OP_bootstrap_initial e]) fresh_instance = Inr s1 \<and> quiet post s1))"
proof -
  have f: "\<not> is_synchronous fresh_instance"
    by (simp add: is_synchronous_def listener_target_def fresh_instance_def)
  have i: "is_initial (OP_bootstrap_initial env0)"
    by simp
  have n: "\<not> list_ex is_initial [OP_bootstrap_refresh env0,
        OP_event CLCONFIG_EVENT_GOT_NEW_CONFIG (Some some_config), OP_timer_fire]"
    by simp
  have "\<exists>s1 s2. step (OP_bootstrap_initial env0) fresh_instance = Inr s1 \<and> is_synchronous s1 \<and>
      config_callback s1 CLCONFIG_EVENT_GOT_NEW_CONFIG (Some some_config) = Inr s2 \<and>
      step (OP_event CLCONFIG_EVENT_GOT_NEW_CONFIG (Some some_config)) s1 = Inr s2"
    by (simp add: machine_defs timer_defs monitor_defs owner_defs example_defs
        is_synchronous_def listener_target_def)
  then obtain s1 s2 where s1: "step (OP_bootstrap_initial env0) fresh_instance = Inr s1"
      and y1: "is_synchronous s1"
      and c: "config_callback s1 CLCONFIG_EVENT_GOT_NEW_CONFIG (Some some_config) = Inr s2"
      and s2: "step (OP_event CLCONFIG_EVENT_GOT_NEW_CONFIG (Some some_config)) s1 = Inr s2"
    by blast
  have p: "processes_new_config (OP_event CLCONFIG_EVENT_GOT_NEW_CONFIG (Some some_config)) s1"
    using y1 by simp
  have d: "listener_target s2 = Some FN_async_step_callback"
    using listener_target_discipline
        [of s1 "Some some_config" s2 "OP_event CLCONFIG_EVENT_GOT_NEW_CONFIG (Some some_config)"]
      s2 p by blast
  have "\<exists>s'. run [OP_bootstrap_refresh env0,
               OP_event CLCONFIG_EVENT_GOT_NEW_CONFIG (Some some_config), OP_timer_fire]
              fresh_instance = Inr s'"
    by (simp add: machine_defs timer_defs monitor_defs owner_defs example_defs)
  then obtain u where u: "run [OP_bootstrap_refresh env0,
               OP_event CLCONFIG_EVENT_GOT_NEW_CONFIG (Some some_config), OP_timer_fire]
              fresh_instance = Inr u"
    by blast
  have du: "\<not> is_synchronous u"
    using listener_target_discipline [of fresh_instance _ u _ "[OP_bootstrap_refresh env0,
               OP_event CLCONFIG_EVENT_GOT_NEW_CONFIG (Some some_config), OP_timer_fire]"]
      u f n by blast
  have "\<exists>s'. run [OP_bootstrap_refresh env0, OP_bootstrap_initial env0,
               OP_event CLCONFIG_EVENT_PROVIDERS_CYCLED None] fresh_instance = Inr s' \<and>
      is_synchronous s'"
    by (simp add: machine_defs timer_defs monitor_defs owner_defs example_defs
        is_synchronous_def listener_target_def)
  then obtain v where v: "run [OP_bootstrap_refresh env0, OP_bootstrap_initial env0,
               OP_event CLCONFIG_EVENT_PROVIDERS_CYCLED None] fresh_instance = Inr v"
      and yv: "is_synchronous v"
    by blast
  have w: "\<exists>pre e post s1.
         [OP_bootstrap_refresh env0, OP_bootstrap_initial env0,
          OP_event CLCONFIG_EVENT_PROVIDERS_CYCLED None] = pre @ OP_bootstrap_initial e # post \<and>
         run (pre @ [OP_bootstrap_initial e]) fresh_instance = Inr s1 \<and> quiet post s1"
    using listener_target_discipline [of fresh_instance _ v _ "[OP_bootstrap_refresh env0,
          OP_bootstrap_initial env0, OP_event CLCONFIG_EVENT_PROVIDERS_CYCLED None]"]
      v f yv by blast
  show ?thesis
    using f i n s1 y1 c p s2 d u du v yv w by blast
qed

end
